theory Spec2Isabelle
  imports Complex_Main
begin

section \<open>Python effects: state passing with exceptions\<close>

text \<open>
  A Python function is a state transformer that either returns a value or raises:
  \<open>'s \<Rightarrow> (exn + 'a) \<times> 's\<close>, with \<open>Inl\<close> the raised exception. Python floats are
  idealised as exact reals, Python's unbounded integers are \<open>int\<close>.
\<close>

datatype exn = COMError | OSError

type_synonym ('a, 's) py = "'s \<Rightarrow> (exn + 'a) \<times> 's"

definition return_py :: "'a \<Rightarrow> ('a, 's) py" where
  "return_py x = (\<lambda>s. (Inr x, s))"

definition bind_py :: "('a, 's) py \<Rightarrow> ('a \<Rightarrow> ('b, 's) py) \<Rightarrow> ('b, 's) py" where
  "bind_py m f = (\<lambda>s. case m s of (Inl e, s') \<Rightarrow> (Inl e, s') | (Inr x, s') \<Rightarrow> f x s')"

text \<open>\<^verbatim>\<open>try: body  except Exception as e: handler(e)\<close>\<close>

definition try_except :: "('a, 's) py \<Rightarrow> (exn \<Rightarrow> ('a, 's) py) \<Rightarrow> ('a, 's) py" where
  "try_except body handler =
     (\<lambda>s. case body s of (Inl e, s') \<Rightarrow> handler e s' | (Inr x, s') \<Rightarrow> (Inr x, s'))"

text \<open>\<^verbatim>\<open>try: body  finally: fin\<close>: the final block always runs; if it raises, its
  exception replaces the outcome of the body.\<close>

definition try_finally :: "('a, 's) py \<Rightarrow> (unit, 's) py \<Rightarrow> ('a, 's) py" where
  "try_finally body fin =
     (\<lambda>s. case body s of (r, s') \<Rightarrow>
        (case fin s' of (Inl e, s'') \<Rightarrow> (Inl e, s'') | (Inr u, s'') \<Rightarrow> (r, s'')))"

section \<open>The environment: audio endpoint, COM runtime, console\<close>

text \<open>
  The audio endpoint is an external collaborator. It holds a scalar level and a mute flag
  (a Windows BOOL, read by Python as an integer). Every call into the platform is logged
  in \<open>calls\<close>, and \<open>faults\<close> is a schedule of failures: each fallible platform call
  consumes the head of the schedule and raises when it is \<open>True\<close>; an empty schedule
  means no further failure (\<open>tl [] = []\<close>). A call that raises has no other effect on the
  endpoint; a call that does not raise is carried out as requested (an endpoint that rejects
  a request does so by raising, which is a failure of the schedule).
  \<open>stdout\<close> and \<open>stderr\<close> collect what the program prints.
\<close>

datatype call =
    CoInitializeCall | CoUninitializeCall
  | GetSpeakersCall | CreateObjectCall | GetDefaultAudioEndpointCall | ActivateCall
  | GetLevelCall | SetLevelCall real | GetMuteCall | SetMuteCall int

record environment =
  endpoint_level :: real
  endpoint_mute :: int
  faults :: "bool list"
  calls :: "call list"
  stdout :: "string list"
  stderr :: "string list"

definition next_fault :: "environment \<Rightarrow> bool" where
  "next_fault e = (case faults e of [] \<Rightarrow> False | f # fs \<Rightarrow> f)"

definition platform_call :: "call \<Rightarrow> (unit, environment) py" where
  "platform_call c = (\<lambda>e.
     (if next_fault e then Inl COMError else Inr (),
      e\<lparr>faults := tl (faults e), calls := calls e @ [c]\<rparr>))"

definition print_py :: "string \<Rightarrow> (unit, environment) py" where
  "print_py line = (\<lambda>e. (Inr (), e\<lparr>stdout := stdout e @ [line]\<rparr>))"

definition str_exn :: "exn \<Rightarrow> string" where
  "str_exn e = (case e of COMError \<Rightarrow> ''COMError'' | OSError \<Rightarrow> ''OSError'')"

definition CoInitialize :: "(unit, environment) py" where
  "CoInitialize = platform_call CoInitializeCall"

text \<open>\<open>CoUninitialize\<close> is a void call of the COM runtime: it is logged and never raises.\<close>

definition CoUninitialize :: "(unit, environment) py" where
  "CoUninitialize = (\<lambda>e. (Inr (), e\<lparr>calls := calls e @ [CoUninitializeCall]\<rparr>))"

subsection \<open>The interface objects\<close>

text \<open>
  \<open>EndpointVolume\<close> is a pointer to the platform's endpoint; \<open>MockVolume\<close> is the
  fallback class of \<^verbatim>\<open>get_volume_interface\<close> (masterAudioContolKivy.py, lines 32-36):
  \<^verbatim>\<open>
  class MockVolume:
      def GetMasterVolumeLevelScalar(self): return 0.5
      def SetMasterVolumeLevelScalar(self, level, guid): pass
      def GetMute(self): return 0
      def SetMute(self, mute, guid): pass
  \<close>
\<close>

datatype volume_interface = EndpointVolume | MockVolume

definition GetMasterVolumeLevelScalar :: "volume_interface \<Rightarrow> (real, environment) py" where
  "GetMasterVolumeLevelScalar vi =
     (case vi of
        EndpointVolume \<Rightarrow> bind_py (platform_call GetLevelCall) (\<lambda>u e. (Inr (endpoint_level e), e))
      | MockVolume \<Rightarrow> return_py 0.5)"

definition SetMasterVolumeLevelScalar :: "volume_interface \<Rightarrow> real \<Rightarrow> (unit, environment) py" where
  "SetMasterVolumeLevelScalar vi level =
     (case vi of
        EndpointVolume \<Rightarrow>
          bind_py (platform_call (SetLevelCall level)) (\<lambda>u e. (Inr (), e\<lparr>endpoint_level := level\<rparr>))
      | MockVolume \<Rightarrow> return_py ())"

definition GetMute :: "volume_interface \<Rightarrow> (int, environment) py" where
  "GetMute vi =
     (case vi of
        EndpointVolume \<Rightarrow> bind_py (platform_call GetMuteCall) (\<lambda>u e. (Inr (endpoint_mute e), e))
      | MockVolume \<Rightarrow> return_py 0)"

definition SetMute :: "volume_interface \<Rightarrow> int \<Rightarrow> (unit, environment) py" where
  "SetMute vi mute =
     (case vi of
        EndpointVolume \<Rightarrow>
          bind_py (platform_call (SetMuteCall mute)) (\<lambda>u e. (Inr (), e\<lparr>endpoint_mute := mute\<rparr>))
      | MockVolume \<Rightarrow> return_py ())"

section \<open>masterAudioContolKivy.py: the backend functions\<close>


text \<open>
  \<^verbatim>\<open>
  def get_volume_interface():
      try:
          comtypes.CoInitialize()
          devices = AudioUtilities.GetSpeakers()
          return devices.EndpointVolume
      except Exception as e:
          print(f"Error accessing audio device: {e}")
          ...
          return MockVolume()
  \<close>
  \<open>GetSpeakers\<close> and the activation behind \<open>devices.EndpointVolume\<close> are platform calls.
\<close>

definition get_volume_interface :: "(volume_interface, environment) py" where
  "get_volume_interface =
     try_except
       (bind_py CoInitialize (\<lambda>u.
        bind_py (platform_call GetSpeakersCall) (\<lambda>devices.
        bind_py (platform_call ActivateCall) (\<lambda>u. return_py EndpointVolume))))
       (\<lambda>e. bind_py (print_py (''Error accessing audio device: '' @ str_exn e))
               (\<lambda>u. return_py MockVolume))"

text \<open>The module global \<^verbatim>\<open>VOLUME_INTERFACE\<close> is passed to the four helpers as \<open>vi\<close>.\<close>

definition get_current_volume_scalar :: "volume_interface \<Rightarrow> (real, environment) py" where
  "get_current_volume_scalar vi =
     try_except (GetMasterVolumeLevelScalar vi) (\<lambda>e. return_py 0.0)"

definition set_volume_scalar :: "volume_interface \<Rightarrow> real \<Rightarrow> (unit, environment) py" where
  "set_volume_scalar vi level_scalar =
     try_except (SetMasterVolumeLevelScalar vi level_scalar)
       (\<lambda>e. print_py (''Error setting volume: '' @ str_exn e))"

definition get_mute_status :: "volume_interface \<Rightarrow> (bool, environment) py" where
  "get_mute_status vi =
     try_except (bind_py (GetMute vi) (\<lambda>m. return_py (m = 1))) (\<lambda>e. return_py False)"

definition set_mute_status :: "volume_interface \<Rightarrow> bool \<Rightarrow> (unit, environment) py" where
  "set_mute_status vi is_muted_arg =
     try_except (SetMute vi (if is_muted_arg then 1 else 0))
       (\<lambda>e. print_py (''Error setting mute: '' @ str_exn e))"

section \<open>Number formatting\<close>

text \<open>
  The format \<^verbatim>\<open>{x:.0f}\<close> prints \<open>x\<close> rounded to the nearest integer, ties to the even
  one (as Python's \<^verbatim>\<open>round\<close> does), with a minus sign for a negative \<open>x\<close>.
\<close>

definition digit_char :: "nat \<Rightarrow> char" where
  "digit_char d = ''0123456789'' ! d"

fun digits :: "nat \<Rightarrow> string" where
  "digits n = (if n < 10 then [digit_char n] else digits (n div 10) @ [digit_char (n mod 10)])"

declare digits.simps [simp del]

definition py_round :: "real \<Rightarrow> int" where
  "py_round x =
     (let f = \<lfloor>x\<rfloor>; d = x - of_int f
      in if d < 1 / 2 then f else if 1 / 2 < d then f + 1 else if even f then f else f + 1)"

definition format_0f :: "real \<Rightarrow> string" where
  "format_0f x = (if x < 0 then ''-'' else []) @ digits (nat \<bar>py_round x\<bar>)"

section \<open>masterAudioContolKivy.py: VolumeControlWidget\<close>

text \<open>
  The widget's Kivy properties, the properties of its child widgets that the bindings of
  \<^verbatim>\<open>__init__\<close> write (\<open>volume_label_shown\<close> is \<^verbatim>\<open>self.volume_label.text\<close>,
  \<open>volume_slider_value\<close> is \<^verbatim>\<open>self.volume_slider.value\<close>, \<open>status_bar_shown\<close> is
  \<^verbatim>\<open>self.status_bar.text\<close>), the module global \<^verbatim>\<open>VOLUME_INTERFACE\<close> and the environment.
  The cached volume state of the controller is \<open>(volume_scalar, is_muted)\<close>.
\<close>

record app =
  volume_scalar :: real
  is_muted :: bool
  volume_label_text :: string
  status_text :: string
  volume_label_shown :: string
  volume_slider_value :: real
  mute_button_text :: string
  mute_button_background_color :: "real \<times> real \<times> real \<times> real"
  status_bar_shown :: string
  VOLUME_INTERFACE :: volume_interface
  env :: environment

text \<open>A call of a backend function of the module from a method of the widget.\<close>

definition backend :: "(volume_interface \<Rightarrow> ('a, environment) py) \<Rightarrow> ('a, app) py" where
  "backend f = (\<lambda>s. case f (VOLUME_INTERFACE s) (env s) of (r, e') \<Rightarrow> (r, s\<lparr>env := e'\<rparr>))"

subsection \<open>Property assignments and their observers\<close>

text \<open>
  Assigning a Kivy property stores the value and then calls the observers bound to it, in
  the order of binding; assigning the value the property already has does nothing.
  \<^verbatim>\<open>__init__\<close> binds
  \<^item> \<^verbatim>\<open>volume_label_text\<close> to \<^verbatim>\<open>volume_label.setter('text')\<close> (line 90),
  \<^item> \<^verbatim>\<open>volume_slider.value\<close> to \<^verbatim>\<open>update_volume_from_gui\<close> (line 98),
  \<^item> \<^verbatim>\<open>volume_scalar\<close> to \<^verbatim>\<open>volume_slider.setter('value')\<close> (line 102) and to
    \<^verbatim>\<open>update_label\<close> (line 117),
  \<^item> \<^verbatim>\<open>status_text\<close> to \<^verbatim>\<open>status_bar.setter('text')\<close> (line 113),
  \<^item> \<^verbatim>\<open>is_muted\<close> to \<^verbatim>\<open>update_gui_on_mute\<close> (line 118).
\<close>

definition assign_volume_label_text :: "string \<Rightarrow> (unit, app) py" where
  "assign_volume_label_text t = (\<lambda>s.
     if volume_label_text s = t then (Inr (), s)
     else (Inr (), s\<lparr>volume_label_text := t, volume_label_shown := t\<rparr>))"

definition assign_status_text :: "string \<Rightarrow> (unit, app) py" where
  "assign_status_text t = (\<lambda>s.
     if status_text s = t then (Inr (), s)
     else (Inr (), s\<lparr>status_text := t, status_bar_shown := t\<rparr>))"

text \<open>
  \<^verbatim>\<open>
  def update_label(self, instance, value):
      self.volume_label_text = f'Volume: {value * 100:.0f}%'
  \<close>
\<close>

definition update_label :: "real \<Rightarrow> (unit, app) py" where
  "update_label val = assign_volume_label_text (''Volume: '' @ format_0f (val * 100) @ ''%'')"

definition update_gui_on_mute :: "bool \<Rightarrow> (unit, app) py" where
  "update_gui_on_mute is_muted_arg = (\<lambda>s.
     if is_muted_arg
     then (Inr (), s\<lparr>mute_button_text := ''Unmute (Muted)'',
                      mute_button_background_color := (0.8, 0.2, 0.2, 1)\<rparr>)
     else (Inr (), s\<lparr>mute_button_text := ''Mute (M)'',
                      mute_button_background_color := (0.2, 0.8, 0.2, 1)\<rparr>))"

definition assign_is_muted :: "bool \<Rightarrow> (unit, app) py" where
  "assign_is_muted b = (\<lambda>s.
     if is_muted s = b then (Inr (), s) else update_gui_on_mute b (s\<lparr>is_muted := b\<rparr>))"

lemma bind_py_cong [fundef_cong]:
  "m s = m' s' \<Longrightarrow> (\<And>x t. m' s' = (Inr x, t) \<Longrightarrow> f x t = f' x t) \<Longrightarrow>
   bind_py m f s = bind_py m' f' s'"
  by (auto simp: bind_py_def split: prod.splits sum.splits)

lemma backend_set_volume_scalar_fields:
  "backend (\<lambda>vi. set_volume_scalar vi v) s = (r, t) \<Longrightarrow>
   volume_scalar t = volume_scalar s \<and> volume_slider_value t = volume_slider_value s"
  by (auto simp: backend_def split: prod.splits)

text \<open>
  The assignment \<^verbatim>\<open>self.volume_scalar = value\<close>, the slider's \<^verbatim>\<open>setter('value')\<close> and
  the slider's observer call one another:
  \<^verbatim>\<open>
  def update_volume_from_gui(self, instance, value):
      set_volume_scalar(value)
      self.volume_scalar = value
      self.status_text = f"Volume set via Slider: {value * 100:.0f}%"
  \<close>
  The recursion ends because a property that already holds the value calls no observer.
\<close>

function assign_volume_scalar :: "real \<Rightarrow> (unit, app) py"
  and slider_setter_value :: "real \<Rightarrow> (unit, app) py"
  and update_volume_from_gui :: "real \<Rightarrow> (unit, app) py"
where
  "assign_volume_scalar val s =
     (if volume_scalar s = val then (Inr (), s)
      else bind_py (\<lambda>t. slider_setter_value val t) (\<lambda>u. update_label val)
             (s\<lparr>volume_scalar := val\<rparr>))"
| "slider_setter_value val s =
     (if volume_slider_value s = val then (Inr (), s)
      else update_volume_from_gui val (s\<lparr>volume_slider_value := val\<rparr>))"
| "update_volume_from_gui val s =
     bind_py (backend (\<lambda>vi. set_volume_scalar vi val)) (\<lambda>u.
     bind_py (\<lambda>t. assign_volume_scalar val t) (\<lambda>u.
     assign_status_text (''Volume set via Slider: '' @ format_0f (val * 100) @ ''%''))) s"
  by pat_completeness auto
termination
  apply (relation "measure (\<lambda>x. case x of
      Inl (v, s) \<Rightarrow>
        (if volume_scalar s = v then 0 else 2) + (if volume_slider_value s = v then 0 else 2)
    | Inr (Inl (v, s)) \<Rightarrow>
        (if volume_scalar s = v then 0 else 2) + (if volume_slider_value s = v then 0 else 2)
    | Inr (Inr (v, s)) \<Rightarrow>
        (if volume_scalar s = v then 0 else 2) + (if volume_slider_value s = v then 0 else 2) + 1)")
     apply (auto dest: backend_set_volume_scalar_fields)
  done

declare assign_volume_scalar.simps [simp del]
declare slider_setter_value.simps [simp del]
declare update_volume_from_gui.simps [simp del]

subsection \<open>The methods\<close>

text \<open>
  \<^verbatim>\<open>
  def update_volume_from_key(self, change_scalar):
      current_scalar = self.volume_scalar
      new_scalar = max(0.0, min(1.0, current_scalar + change_scalar))
      set_volume_scalar(new_scalar)
      self.volume_scalar = new_scalar
      self.status_text = f"Volume set via Keyboard: {new_scalar * 100:.0f}%"
  \<close>
\<close>

definition update_volume_from_key :: "real \<Rightarrow> (unit, app) py" where
  "update_volume_from_key change_scalar = (\<lambda>s.
     let current_scalar = volume_scalar s;
         new_scalar = max 0.0 (min 1.0 (current_scalar + change_scalar))
     in bind_py (backend (\<lambda>vi. set_volume_scalar vi new_scalar)) (\<lambda>u.
        bind_py (assign_volume_scalar new_scalar) (\<lambda>u.
        assign_status_text
          (''Volume set via Keyboard: '' @ format_0f (new_scalar * 100) @ ''%''))) s)"

text \<open>
  \<^verbatim>\<open>
  def toggle_mute(self, instance=None):
      new_mute_status = not self.is_muted
      set_mute_status(new_mute_status)
      self.is_muted = new_mute_status
      self.status_text = f"Mute Toggled: {'Muted' if new_mute_status else 'Unmuted'}"
  \<close>
\<close>

definition toggle_mute :: "(unit, app) py" where
  "toggle_mute = (\<lambda>s.
     let new_mute_status = \<not> is_muted s
     in bind_py (backend (\<lambda>vi. set_mute_status vi new_mute_status)) (\<lambda>u.
        bind_py (assign_is_muted new_mute_status) (\<lambda>u.
        assign_status_text
          (''Mute Toggled: '' @ (if new_mute_status then ''Muted'' else ''Unmuted'')))) s)"


text \<open>
  \<^verbatim>\<open>
  def check_external_change(self, dt):
      current_external_scalar = get_current_volume_scalar()
      current_external_mute = get_mute_status()
      if abs(self.volume_scalar - current_external_scalar) > 0.005:
          self.volume_scalar = current_external_scalar
          self.status_text = "Volume changed externally!"
      if self.is_muted != current_external_mute:
          self.is_muted = current_external_mute
  \<close>
\<close>

definition check_external_change :: "(unit, app) py" where
  "check_external_change =
     bind_py (backend get_current_volume_scalar) (\<lambda>current_external_scalar.
     bind_py (backend get_mute_status) (\<lambda>current_external_mute.
     bind_py (\<lambda>s. if \<bar>volume_scalar s - current_external_scalar\<bar> > 0.005
                   then bind_py (assign_volume_scalar current_external_scalar)
                          (\<lambda>u. assign_status_text ''Volume changed externally!'') s
                   else (Inr (), s)) (\<lambda>u.
     (\<lambda>s. if is_muted s \<noteq> current_external_mute
           then assign_is_muted current_external_mute s
           else (Inr (), s)))))"

subsection \<open>Start of the application\<close>

text \<open>
  Importing the module evaluates \<^verbatim>\<open>VOLUME_INTERFACE = get_volume_interface()\<close> and then the
  class attributes of the widget, in this order:
  \<^verbatim>\<open>
  volume_scalar = NumericProperty(get_current_volume_scalar())
  is_muted = BooleanProperty(get_mute_status())
  volume_label_text = StringProperty(f"Volume: {get_current_volume_scalar() * 100:.0f}%")
  status_text = StringProperty("Use Up/Down Arrows to adjust volume. Press 'M' to mute.")
  \<close>
  \<^verbatim>\<open>__init__\<close> gives the label, the slider and the status bar the values of these
  properties; the button starts with the text \<^verbatim>\<open>Mute (M)\<close> and Kivy's default
  background colour.
\<close>

definition start_app :: "environment \<Rightarrow> exn + app" where
  "start_app e0 =
     (case bind_py get_volume_interface (\<lambda>vi.
           bind_py (get_current_volume_scalar vi) (\<lambda>v.
           bind_py (get_mute_status vi) (\<lambda>m.
           bind_py (get_current_volume_scalar vi) (\<lambda>v2.
           return_py (vi, v, m, v2))))) e0 of
        (Inl x, e) \<Rightarrow> Inl x
      | (Inr (vi, v, m, v2), e) \<Rightarrow>
          Inr \<lparr>volume_scalar = v,
               is_muted = m,
               volume_label_text = ''Volume: '' @ format_0f (v2 * 100) @ ''%'',
               status_text = ''Use Up/Down Arrows to adjust volume. Press 'M' to mute.'',
               volume_label_shown = ''Volume: '' @ format_0f (v2 * 100) @ ''%'',
               volume_slider_value = v,
               mute_button_text = ''Mute (M)'',
               mute_button_background_color = (1, 1, 1, 1),
               status_bar_shown = ''Use Up/Down Arrows to adjust volume. Press 'M' to mute.'',
               VOLUME_INTERFACE = vi,
               env = e\<rparr>)"

text \<open>The same operation performed \<open>n\<close> times in a row (a key pressed \<open>n\<close> times, \<open>n\<close>
  ticks of the clock); it stops at the first exception.\<close>

fun repeat_py :: "nat \<Rightarrow> (unit, 's) py \<Rightarrow> (unit, 's) py" where
  "repeat_py 0 m = return_py ()"
| "repeat_py (Suc n) m = bind_py m (\<lambda>u. repeat_py n m)"

section \<open>teams3mute.py: global hotkeys for the microphone\<close>

text \<open>
  The program keeps no state of its own: every handler acquires the endpoint, reads it
  and writes it. (The leading underscore of the private helpers is dropped, and the
  handler \<^verbatim>\<open>toggle_mute\<close> is called \<open>toggle_mute_hotkey\<close> here, since the widget method of
  masterAudioContolKivy.py has the same name.)
\<close>

definition STEP_PERCENT :: real where
  "STEP_PERCENT = 5.0"

text \<open>
  \<^verbatim>\<open>
  def _create_mmdevice_enumerator():
      try:
          return CreateObject("MMDeviceEnumerator.MMDeviceEnumerator", interface=...)
      except Exception:
          clsid = GUID("{BCDE0395-E52F-467C-8E3D-C4579291692E}")
          return CreateObject(clsid, interface=IMMDeviceEnumerator)
  \<close>
\<close>

definition create_mmdevice_enumerator :: "(unit, environment) py" where
  "create_mmdevice_enumerator =
     try_except (platform_call CreateObjectCall) (\<lambda>e. platform_call CreateObjectCall)"

text \<open>
  \<^verbatim>\<open>
  def _get_volume_interface_for_default():
      enumerator = _create_mmdevice_enumerator()
      default_device = enumerator.GetDefaultAudioEndpoint(eCapture, eConsole)
      iface = default_device.Activate(IAudioEndpointVolume._iid_, CLSCTX_ALL, None)
      return cast(iface, POINTER(IAudioEndpointVolume))
  \<close>
\<close>

definition get_volume_interface_for_default :: "(volume_interface, environment) py" where
  "get_volume_interface_for_default =
     bind_py create_mmdevice_enumerator (\<lambda>enumerator.
     bind_py (platform_call GetDefaultAudioEndpointCall) (\<lambda>default_device.
     bind_py (platform_call ActivateCall) (\<lambda>iface.
     return_py EndpointVolume)))"

definition percent_to_scalar :: "real \<Rightarrow> real" where
  "percent_to_scalar p = max 0.0 (min 1.0 (p / 100.0))"

definition scalar_to_percent :: "real \<Rightarrow> real" where
  "scalar_to_percent s = max 0.0 (min 100.0 (s * 100.0))"

definition print_err :: "string \<Rightarrow> (unit, environment) py" where
  "print_err line = (\<lambda>e. (Inr (), e\<lparr>stderr := stderr e @ [line]\<rparr>))"

text \<open>
  \<^verbatim>\<open>
  def ensure_com(func):
      def wrapper(*args, **kwargs):
          CoInitialize()
          try:
              return func(*args, **kwargs)
          except Exception:
              print("Exception in handler:", file=sys.stderr)
              traceback.print_exc()
          finally:
              try:
                  CoUninitialize()
              except Exception:
                  pass
      return wrapper
  \<close>
  \<open>CoInitialize\<close> stands before the \<^verbatim>\<open>try\<close>: if it raises, the wrapper raises. The
  traceback is shortened to the name of the exception.
\<close>

definition ensure_com :: "(unit, environment) py \<Rightarrow> (unit, environment) py" where
  "ensure_com func =
     bind_py CoInitialize (\<lambda>u.
       try_finally
         (try_except func
            (\<lambda>e. bind_py (print_err ''Exception in handler:'') (\<lambda>u. print_err (str_exn e))))
         (try_except CoUninitialize (\<lambda>e. return_py ())))"

text \<open>
  \<^verbatim>\<open>
  @ensure_com
  def increase_volume():
      vol = _get_volume_interface_for_default()
      cur = float(vol.GetMasterVolumeLevelScalar())
      cur_pct = _scalar_to_percent(cur)
      new_pct = min(100.0, cur_pct + STEP_PERCENT)
      vol.SetMasterVolumeLevelScalar(_percent_to_scalar(new_pct), None)
      print(f"[+] Mic volume -> {new_pct:.0f}%")
  \<close>
\<close>

definition increase_volume :: "(unit, environment) py" where
  "increase_volume = ensure_com
     (bind_py get_volume_interface_for_default (\<lambda>vol.
      bind_py (GetMasterVolumeLevelScalar vol) (\<lambda>cur.
      let cur_pct = scalar_to_percent cur;
          new_pct = min 100.0 (cur_pct + STEP_PERCENT)
      in bind_py (SetMasterVolumeLevelScalar vol (percent_to_scalar new_pct)) (\<lambda>u.
         print_py (''[+] Mic volume -> '' @ format_0f new_pct @ ''%'')))))"

text \<open>
  \<^verbatim>\<open>
  @ensure_com
  def decrease_volume():
      vol = _get_volume_interface_for_default()
      cur = float(vol.GetMasterVolumeLevelScalar())
      cur_pct = _scalar_to_percent(cur)
      new_pct = max(0.0, cur_pct - STEP_PERCENT)
      vol.SetMasterVolumeLevelScalar(_percent_to_scalar(new_pct), None)
      print(f"[-] Mic volume -> {new_pct:.0f}%")
  \<close>
\<close>

definition decrease_volume :: "(unit, environment) py" where
  "decrease_volume = ensure_com
     (bind_py get_volume_interface_for_default (\<lambda>vol.
      bind_py (GetMasterVolumeLevelScalar vol) (\<lambda>cur.
      let cur_pct = scalar_to_percent cur;
          new_pct = max 0.0 (cur_pct - STEP_PERCENT)
      in bind_py (SetMasterVolumeLevelScalar vol (percent_to_scalar new_pct)) (\<lambda>u.
         print_py (''[-] Mic volume -> '' @ format_0f new_pct @ ''%'')))))"

text \<open>
  \<^verbatim>\<open>
  @ensure_com
  def toggle_mute():
      vol = _get_volume_interface_for_default()
      cur_mute = bool(vol.GetMute())
      new_mute = not cur_mute
      vol.SetMute(1 if new_mute else 0, None)
      print(f"[{'M' if new_mute else 'U'}] Mic muted -> {new_mute}")
  \<close>
  \<^verbatim>\<open>bool\<close> of an integer is \<open>True\<close> unless the integer is \<open>0\<close>.
\<close>

definition toggle_mute_hotkey :: "(unit, environment) py" where
  "toggle_mute_hotkey = ensure_com
     (bind_py get_volume_interface_for_default (\<lambda>vol.
      bind_py (GetMute vol) (\<lambda>m.
      let cur_mute = (m \<noteq> 0);
          new_mute = \<not> cur_mute
      in bind_py (SetMute vol (if new_mute then 1 else 0)) (\<lambda>u.
         print_py (if new_mute then ''[M] Mic muted -> True'' else ''[U] Mic muted -> False'')))))"

section \<open>teams3micKivy.py: MicApp\<close>

text \<open>
  \<open>cached_interface\<close> is \<^verbatim>\<open>self.cached_interface\<close> (\<open>None\<close> until \<^verbatim>\<open>on_start\<close> has run);
  the other fields are the properties of the layout that \<^verbatim>\<open>update_ui\<close> writes, with their
  initial values from the KV rules.
\<close>

record mic_app =
  cached_interface :: "volume_interface option"
  vol_bar_value :: real
  status_lbl_text :: string
  status_lbl_color :: "real \<times> real \<times> real \<times> real"
  vol_text_lbl_text :: string
  mic_env :: environment

definition in_mic_env :: "('a, environment) py \<Rightarrow> ('a, mic_app) py" where
  "in_mic_env m = (\<lambda>s. case m (mic_env s) of (r, e') \<Rightarrow> (r, s\<lparr>mic_env := e'\<rparr>))"

definition initial_mic_app :: "environment \<Rightarrow> mic_app" where
  "initial_mic_app e =
     \<lparr>cached_interface = None, vol_bar_value = 0, status_lbl_text = ''--'',
      status_lbl_color = (0.3, 0.6, 1.0, 1), vol_text_lbl_text = ''Initializing...'',
      mic_env = e\<rparr>"

text \<open>\<^verbatim>\<open>_get_new_interface\<close> has the body of \<^verbatim>\<open>_get_volume_interface_for_default\<close>.\<close>

definition get_new_interface :: "(volume_interface, environment) py" where
  "get_new_interface =
     bind_py create_mmdevice_enumerator (\<lambda>enumerator.
     bind_py (platform_call GetDefaultAudioEndpointCall) (\<lambda>default_device.
     bind_py (platform_call ActivateCall) (\<lambda>iface.
     return_py EndpointVolume)))"

text \<open>
  \<^verbatim>\<open>
  def update_ui(self, vol_pct, is_muted):
      self.ids.vol_bar.value = vol_pct
      if is_muted:
          self.ids.status_lbl.text = "MUTED"
          self.ids.status_lbl.color = (1, 0.3, 0.3, 1) # Red
          self.ids.vol_text_lbl.text = "Microphone is Inactive"
      else:
          self.ids.status_lbl.text = f"{vol_pct:.0f}%"
          self.ids.status_lbl.color = (0.3, 0.6, 1.0, 1) # Blue
          self.ids.vol_text_lbl.text = "Microphone Active"
  \<close>
\<close>

definition update_ui :: "real \<Rightarrow> bool \<Rightarrow> (unit, mic_app) py" where
  "update_ui vol_pct is_muted_arg = (\<lambda>s.
     if is_muted_arg
     then (Inr (), s\<lparr>vol_bar_value := vol_pct, status_lbl_text := ''MUTED'',
                      status_lbl_color := (1, 0.3, 0.3, 1),
                      vol_text_lbl_text := ''Microphone is Inactive''\<rparr>)
     else (Inr (), s\<lparr>vol_bar_value := vol_pct, status_lbl_text := format_0f vol_pct @ ''%'',
                      status_lbl_color := (0.3, 0.6, 1.0, 1),
                      vol_text_lbl_text := ''Microphone Active''\<rparr>))"

text \<open>
  \<^verbatim>\<open>
  def on_start(self):
      print("App Starting...")
      register_hotkeys()
      CoInitialize()
      try:
          self.cached_interface = _get_new_interface()
          print("Audio Interface Connected Successfully.")
      except Exception as e:
          print(f"Error connecting to audio: {e}")
          self.cached_interface = None
      Clock.schedule_interval(self.check_mic_status, 0.2)
  \<close>
  The registration of the hotkeys and of the clock are left to the driver.
\<close>

definition on_start :: "(unit, mic_app) py" where
  "on_start =
     bind_py (in_mic_env (print_py ''App Starting...'')) (\<lambda>u.
     bind_py (in_mic_env CoInitialize) (\<lambda>u.
     try_except
       (bind_py (in_mic_env get_new_interface) (\<lambda>vi.
        bind_py (\<lambda>s. (Inr (), s\<lparr>cached_interface := Some vi\<rparr>)) (\<lambda>u.
        in_mic_env (print_py ''Audio Interface Connected Successfully.''))))
       (\<lambda>e. bind_py (in_mic_env (print_py (''Error connecting to audio: '' @ str_exn e)))
               (\<lambda>u s. (Inr (), s\<lparr>cached_interface := None\<rparr>)))))"

text \<open>
  \<^verbatim>\<open>
  def check_mic_status(self, dt):
      if not self.cached_interface:
          return
      try:
          vol = self.cached_interface
          current_vol = _scalar_to_percent(float(vol.GetMasterVolumeLevelScalar()))
          current_mute = bool(vol.GetMute())
          self.layout.update_ui(current_vol, current_mute)
      except Exception:
          try:
              self.cached_interface = _get_new_interface()
          except:
              pass
  \<close>
\<close>

definition check_mic_status :: "(unit, mic_app) py" where
  "check_mic_status = (\<lambda>s.
     case cached_interface s of
       None \<Rightarrow> (Inr (), s)
     | Some vol \<Rightarrow>
         try_except
           (bind_py (in_mic_env (GetMasterVolumeLevelScalar vol)) (\<lambda>lv.
            let current_vol = scalar_to_percent lv
            in bind_py (in_mic_env (GetMute vol)) (\<lambda>m.
               let current_mute = (m \<noteq> 0)
               in update_ui current_vol current_mute)))
           (\<lambda>e. try_except
                   (bind_py (in_mic_env get_new_interface) (\<lambda>vi s.
                      (Inr (), s\<lparr>cached_interface := Some vi\<rparr>)))
                   (\<lambda>e. return_py ()))
           s)"

section \<open>Example states\<close>

text \<open>A working endpoint at half volume with nothing scheduled to fail, and the widget as
  it starts on it.\<close>

definition quiet_environment :: environment where
  "quiet_environment =
     \<lparr>endpoint_level = 0.5, endpoint_mute = 0, faults = [], calls = [], stdout = [],
      stderr = []\<rparr>"

definition example_app :: app where
  "example_app =
     \<lparr>volume_scalar = 0.5, is_muted = False, volume_label_text = ''Volume: 50%'',
      status_text = ''Use Up/Down Arrows to adjust volume. Press 'M' to mute.'',
      volume_label_shown = ''Volume: 50%'', volume_slider_value = 0.5,
      mute_button_text = ''Mute (M)'', mute_button_background_color = (1, 1, 1, 1),
      status_bar_shown = ''Use Up/Down Arrows to adjust volume. Press 'M' to mute.'',
      VOLUME_INTERFACE = EndpointVolume, env = quiet_environment\<rparr>"

section \<open>Basic facts\<close>

subsection \<open>Outcome and final state of composed operations\<close>

lemma fst_return_py: "fst (return_py x s) = Inr x"
  by (simp add: return_py_def)

lemma snd_return_py: "snd (return_py x s) = s"
  by (simp add: return_py_def)

lemma fst_bind_py:
  "fst (bind_py m f s) = (case fst (m s) of Inl e \<Rightarrow> Inl e | Inr x \<Rightarrow> fst (f x (snd (m s))))"
  by (simp add: bind_py_def split: prod.splits sum.splits)

lemma snd_bind_py:
  "snd (bind_py m f s) = (case fst (m s) of Inl e \<Rightarrow> snd (m s) | Inr x \<Rightarrow> snd (f x (snd (m s))))"
  by (simp add: bind_py_def split: prod.splits sum.splits)

lemma fst_try_except:
  "fst (try_except b h s) = (case fst (b s) of Inl e \<Rightarrow> fst (h e (snd (b s))) | Inr x \<Rightarrow> Inr x)"
  by (simp add: try_except_def split: prod.splits sum.splits)

lemma snd_try_except:
  "snd (try_except b h s) = (case fst (b s) of Inl e \<Rightarrow> snd (h e (snd (b s))) | Inr x \<Rightarrow> snd (b s))"
  by (simp add: try_except_def split: prod.splits sum.splits)

lemma fst_try_finally:
  "fst (try_finally b f s) = (case fst (f (snd (b s))) of Inl e \<Rightarrow> Inl e | Inr u \<Rightarrow> fst (b s))"
  by (simp add: try_finally_def split: prod.splits sum.splits)

lemma snd_try_finally: "snd (try_finally b f s) = snd (f (snd (b s)))"
  by (simp add: try_finally_def split: prod.splits sum.splits)

lemma fst_platform_call: "fst (platform_call c e) = (if next_fault e then Inl COMError else Inr ())"
  by (simp add: platform_call_def)

lemma snd_platform_call:
  "snd (platform_call c e) = e\<lparr>faults := tl (faults e), calls := calls e @ [c]\<rparr>"
  by (simp add: platform_call_def)

lemma fst_print_py: "fst (print_py l e) = Inr ()"
  by (simp add: print_py_def)

lemma snd_print_py: "snd (print_py l e) = e\<lparr>stdout := stdout e @ [l]\<rparr>"
  by (simp add: print_py_def)

lemma fst_print_err: "fst (print_err l e) = Inr ()"
  by (simp add: print_err_def)

lemma snd_print_err: "snd (print_err l e) = e\<lparr>stderr := stderr e @ [l]\<rparr>"
  by (simp add: print_err_def)

lemma fst_backend: "fst (backend f s) = fst (f (VOLUME_INTERFACE s) (env s))"
  by (simp add: backend_def split: prod.splits)

lemma snd_backend: "snd (backend f s) = s\<lparr>env := snd (f (VOLUME_INTERFACE s) (env s))\<rparr>"
  by (simp add: backend_def split: prod.splits)

lemma fst_in_mic_env: "fst (in_mic_env m s) = fst (m (mic_env s))"
  by (simp add: in_mic_env_def split: prod.splits)

lemma snd_in_mic_env: "snd (in_mic_env m s) = s\<lparr>mic_env := snd (m (mic_env s))\<rparr>"
  by (simp add: in_mic_env_def split: prod.splits)

lemmas py_proj =
  fst_return_py snd_return_py fst_bind_py snd_bind_py fst_try_except snd_try_except
  fst_try_finally snd_try_finally fst_platform_call snd_platform_call
  fst_print_py snd_print_py fst_print_err snd_print_err

lemma next_fault_Nil: "faults e = [] \<Longrightarrow> \<not> next_fault e"
  by (simp add: next_fault_def)

lemma next_fault_Cons: "faults e = f # fs \<Longrightarrow> next_fault e = f"
  by (simp add: next_fault_def)

subsection \<open>The four backend functions\<close>

lemma fst_get_current_volume_scalar:
  "fst (get_current_volume_scalar vi e) =
     Inr (case vi of MockVolume \<Rightarrow> 0.5
          | EndpointVolume \<Rightarrow> if next_fault e then 0 else endpoint_level e)"
  by (simp add: get_current_volume_scalar_def GetMasterVolumeLevelScalar_def py_proj
      split: volume_interface.splits)

lemma snd_get_current_volume_scalar:
  "snd (get_current_volume_scalar vi e) =
     (case vi of MockVolume \<Rightarrow> e
      | EndpointVolume \<Rightarrow> e\<lparr>faults := tl (faults e), calls := calls e @ [GetLevelCall]\<rparr>)"
  by (simp add: get_current_volume_scalar_def GetMasterVolumeLevelScalar_def py_proj
      split: volume_interface.splits)

lemma fst_get_mute_status:
  "fst (get_mute_status vi e) =
     Inr (case vi of MockVolume \<Rightarrow> False
          | EndpointVolume \<Rightarrow> \<not> next_fault e \<and> endpoint_mute e = 1)"
  by (simp add: get_mute_status_def GetMute_def py_proj split: volume_interface.splits)

lemma snd_get_mute_status:
  "snd (get_mute_status vi e) =
     (case vi of MockVolume \<Rightarrow> e
      | EndpointVolume \<Rightarrow> e\<lparr>faults := tl (faults e), calls := calls e @ [GetMuteCall]\<rparr>)"
  by (simp add: get_mute_status_def GetMute_def py_proj split: volume_interface.splits)

lemma fst_set_volume_scalar: "fst (set_volume_scalar vi v e) = Inr ()"
  by (simp add: set_volume_scalar_def SetMasterVolumeLevelScalar_def py_proj
      split: volume_interface.splits)

lemma snd_set_volume_scalar:
  "snd (set_volume_scalar vi v e) =
     (case vi of
        MockVolume \<Rightarrow> e
      | EndpointVolume \<Rightarrow>
          if next_fault e
          then e\<lparr>faults := tl (faults e), calls := calls e @ [SetLevelCall v],
                 stdout := stdout e @ [''Error setting volume: COMError'']\<rparr>
          else e\<lparr>endpoint_level := v, faults := tl (faults e),
                 calls := calls e @ [SetLevelCall v]\<rparr>)"
  by (simp add: set_volume_scalar_def SetMasterVolumeLevelScalar_def py_proj str_exn_def
      split: volume_interface.splits)

lemma fst_set_mute_status: "fst (set_mute_status vi b e) = Inr ()"
  by (simp add: set_mute_status_def SetMute_def py_proj split: volume_interface.splits)

lemma snd_set_mute_status:
  "snd (set_mute_status vi b e) =
     (case vi of
        MockVolume \<Rightarrow> e
      | EndpointVolume \<Rightarrow>
          if next_fault e
          then e\<lparr>faults := tl (faults e), calls := calls e @ [SetMuteCall (if b then 1 else 0)],
                 stdout := stdout e @ [''Error setting mute: COMError'']\<rparr>
          else e\<lparr>endpoint_mute := (if b then 1 else 0), faults := tl (faults e),
                 calls := calls e @ [SetMuteCall (if b then 1 else 0)]\<rparr>)"
  by (simp add: set_mute_status_def SetMute_def py_proj str_exn_def
      split: volume_interface.splits)

subsection \<open>Property assignments\<close>

lemma fst_assign_status_text: "fst (assign_status_text t s) = Inr ()"
  by (simp add: assign_status_text_def)

lemma snd_assign_status_text:
  "snd (assign_status_text t s) = s\<lparr>status_text := t,
     status_bar_shown := (if status_text s = t then status_bar_shown s else t)\<rparr>"
  by (simp add: assign_status_text_def)

lemma fst_update_label: "fst (update_label v s) = Inr ()"
  by (simp add: update_label_def assign_volume_label_text_def)

lemma snd_update_label:
  "snd (update_label v s) =
     s\<lparr>volume_label_text := ''Volume: '' @ format_0f (v * 100) @ ''%'',
       volume_label_shown :=
         (if volume_label_text s = ''Volume: '' @ format_0f (v * 100) @ ''%''
          then volume_label_shown s else ''Volume: '' @ format_0f (v * 100) @ ''%'')\<rparr>"
  by (simp add: update_label_def assign_volume_label_text_def)

lemma fst_assign_is_muted: "fst (assign_is_muted b s) = Inr ()"
  by (simp add: assign_is_muted_def update_gui_on_mute_def)

lemma is_muted_assign_is_muted: "is_muted (snd (assign_is_muted b s)) = b"
  by (simp add: assign_is_muted_def update_gui_on_mute_def)

lemma volume_scalar_assign_is_muted:
  "volume_scalar (snd (assign_is_muted b s)) = volume_scalar s"
  by (simp add: assign_is_muted_def update_gui_on_mute_def)


lemma env_assign_is_muted: "env (snd (assign_is_muted b s)) = env s"
  by (simp add: assign_is_muted_def update_gui_on_mute_def)

lemma VOLUME_INTERFACE_assign_is_muted:
  "VOLUME_INTERFACE (snd (assign_is_muted b s)) = VOLUME_INTERFACE s"
  by (simp add: assign_is_muted_def update_gui_on_mute_def)

lemma assign_is_muted_same: "is_muted s = b \<Longrightarrow> assign_is_muted b s = (Inr (), s)"
  by (simp add: assign_is_muted_def)

text \<open>Once \<open>volume_scalar\<close> holds the value, the slider's observer writes the backend and the
  status text and assigns nothing further.\<close>

lemma update_volume_from_gui_settled:
  "volume_scalar s = v \<Longrightarrow>
   update_volume_from_gui v s =
     bind_py (backend (\<lambda>vi. set_volume_scalar vi v)) (\<lambda>u.
       assign_status_text (''Volume set via Slider: '' @ format_0f (v * 100) @ ''%'')) s"
  apply (subst update_volume_from_gui.simps)
  apply (rule bind_py_cong, rule refl)
  apply (frule backend_set_volume_scalar_fields)
  apply (simp add: bind_py_def assign_volume_scalar.simps)
  done

lemma slider_setter_value_settled:
  "volume_scalar s = v \<Longrightarrow>
   slider_setter_value v s =
     (if volume_slider_value s = v then (Inr (), s)
      else bind_py (backend (\<lambda>vi. set_volume_scalar vi v)) (\<lambda>u.
             assign_status_text (''Volume set via Slider: '' @ format_0f (v * 100) @ ''%''))
             (s\<lparr>volume_slider_value := v\<rparr>))"
  by (simp add: slider_setter_value.simps update_volume_from_gui_settled)

lemma assign_volume_scalar_eq:
  "assign_volume_scalar v s =
     (if volume_scalar s = v then (Inr (), s)
      else bind_py
        (\<lambda>t. if volume_slider_value t = v then (Inr (), t)
             else bind_py (backend (\<lambda>vi. set_volume_scalar vi v)) (\<lambda>u.
                    assign_status_text
                      (''Volume set via Slider: '' @ format_0f (v * 100) @ ''%''))
                    (t\<lparr>volume_slider_value := v\<rparr>))
        (\<lambda>u. update_label v) (s\<lparr>volume_scalar := v\<rparr>))"
proof (cases "volume_scalar s = v")
  case True
  then show ?thesis by (simp add: assign_volume_scalar.simps)
next
  case False
  have "slider_setter_value v (s\<lparr>volume_scalar := v\<rparr>) =
        (if volume_slider_value (s\<lparr>volume_scalar := v\<rparr>) = v
         then (Inr (), s\<lparr>volume_scalar := v\<rparr>)
         else bind_py (backend (\<lambda>vi. set_volume_scalar vi v)) (\<lambda>u.
             assign_status_text (''Volume set via Slider: '' @ format_0f (v * 100) @ ''%''))
             (s\<lparr>volume_scalar := v, volume_slider_value := v\<rparr>))"
    by (rule slider_setter_value_settled) simp
  with False show ?thesis
    by (subst assign_volume_scalar.simps) (simp add: bind_py_def)
qed

lemma fst_assign_volume_scalar: "fst (assign_volume_scalar v s) = Inr ()"
  by (simp add: assign_volume_scalar_eq fst_bind_py fst_backend fst_set_volume_scalar
      fst_assign_status_text fst_update_label)

lemma snd_assign_volume_scalar:
  "snd (assign_volume_scalar v s) =
     (if volume_scalar s = v then s
      else snd (update_label v
        (if volume_slider_value s = v then s\<lparr>volume_scalar := v\<rparr>
         else snd (assign_status_text
                     (''Volume set via Slider: '' @ format_0f (v * 100) @ ''%'')
                (s\<lparr>volume_scalar := v, volume_slider_value := v,
                   env := snd (set_volume_scalar (VOLUME_INTERFACE s) v (env s))\<rparr>)))))"
  by (simp add: assign_volume_scalar_eq fst_bind_py snd_bind_py fst_backend snd_backend
      fst_set_volume_scalar fst_assign_status_text fst_update_label)

lemma volume_scalar_assign_volume_scalar: "volume_scalar (snd (assign_volume_scalar v s)) = v"
  by (simp add: snd_assign_volume_scalar snd_update_label snd_assign_status_text)

lemma is_muted_assign_volume_scalar:
  "is_muted (snd (assign_volume_scalar v s)) = is_muted s"
  by (simp add: snd_assign_volume_scalar snd_update_label snd_assign_status_text)

lemma VOLUME_INTERFACE_assign_volume_scalar:
  "VOLUME_INTERFACE (snd (assign_volume_scalar v s)) = VOLUME_INTERFACE s"
  by (simp add: snd_assign_volume_scalar snd_update_label snd_assign_status_text)


lemma env_assign_volume_scalar:
  "env (snd (assign_volume_scalar v s)) =
     (if volume_scalar s = v \<or> volume_slider_value s = v then env s
      else snd (set_volume_scalar (VOLUME_INTERFACE s) v (env s)))"
  by (simp add: snd_assign_volume_scalar snd_update_label snd_assign_status_text)

lemma assign_volume_scalar_same: "volume_scalar s = v \<Longrightarrow> assign_volume_scalar v s = (Inr (), s)"
  by (simp add: assign_volume_scalar.simps)

subsection \<open>The methods of the widget\<close>


lemma snd_update_volume_from_gui:
  "snd (update_volume_from_gui v s) =
     snd (assign_status_text (''Volume set via Slider: '' @ format_0f (v * 100) @ ''%'')
       (snd (assign_volume_scalar v
          (s\<lparr>env := snd (set_volume_scalar (VOLUME_INTERFACE s) v (env s))\<rparr>))))"
  by (simp add: update_volume_from_gui.simps fst_bind_py snd_bind_py fst_backend snd_backend
      fst_set_volume_scalar fst_assign_volume_scalar)


lemma snd_update_volume_from_key:
  "snd (update_volume_from_key d s) =
     snd (assign_status_text
            (''Volume set via Keyboard: '' @
               format_0f (max 0 (min 1 (volume_scalar s + d)) * 100) @ ''%'')
       (snd (assign_volume_scalar (max 0 (min 1 (volume_scalar s + d)))
          (s\<lparr>env := snd (set_volume_scalar (VOLUME_INTERFACE s)
                  (max 0 (min 1 (volume_scalar s + d))) (env s))\<rparr>))))"
  by (simp add: update_volume_from_key_def Let_def fst_bind_py snd_bind_py fst_backend
      snd_backend fst_set_volume_scalar fst_assign_volume_scalar)

lemma volume_scalar_update_volume_from_key:
  "volume_scalar (snd (update_volume_from_key d s)) = max 0 (min 1 (volume_scalar s + d))"
  by (simp add: snd_update_volume_from_key snd_assign_status_text
      volume_scalar_assign_volume_scalar)




lemma VOLUME_INTERFACE_update_volume_from_key:
  "VOLUME_INTERFACE (snd (update_volume_from_key d s)) = VOLUME_INTERFACE s"
  by (simp add: snd_update_volume_from_key snd_assign_status_text
      VOLUME_INTERFACE_assign_volume_scalar)

lemma VOLUME_INTERFACE_update_volume_from_gui:
  "VOLUME_INTERFACE (snd (update_volume_from_gui v s)) = VOLUME_INTERFACE s"
  by (simp add: snd_update_volume_from_gui snd_assign_status_text
      VOLUME_INTERFACE_assign_volume_scalar)

lemma calls_set_volume_scalar:
  "calls (snd (set_volume_scalar vi v e)) =
     calls e @ (case vi of MockVolume \<Rightarrow> [] | EndpointVolume \<Rightarrow> [SetLevelCall v])"
  by (simp add: snd_set_volume_scalar split: volume_interface.splits)

lemma calls_assign_volume_scalar:
  "calls (env (snd (assign_volume_scalar v s))) =
     calls (env s) @
       replicate (if volume_scalar s = v \<or> volume_slider_value s = v
                     \<or> VOLUME_INTERFACE s = MockVolume then 0 else 1) (SetLevelCall v)"
  by (simp add: env_assign_volume_scalar calls_set_volume_scalar
      split: volume_interface.splits)


lemma calls_update_volume_from_key:
  "calls (env (snd (update_volume_from_key d s))) =
     calls (env s) @
       replicate (if VOLUME_INTERFACE s = MockVolume then 0
                  else if volume_scalar s = max 0 (min 1 (volume_scalar s + d))
                        \<or> volume_slider_value s = max 0 (min 1 (volume_scalar s + d))
                       then 1 else 2)
         (SetLevelCall (max 0 (min 1 (volume_scalar s + d))))"
  by (simp add: snd_update_volume_from_key snd_assign_status_text calls_assign_volume_scalar
      calls_set_volume_scalar numeral_2_eq_2 split: volume_interface.splits)


lemma snd_toggle_mute:
  "snd (toggle_mute s) =
     snd (assign_status_text
            (''Mute Toggled: '' @ (if \<not> is_muted s then ''Muted'' else ''Unmuted''))
       (snd (assign_is_muted (\<not> is_muted s)
          (s\<lparr>env := snd (set_mute_status (VOLUME_INTERFACE s) (\<not> is_muted s) (env s))\<rparr>))))"
  by (simp add: toggle_mute_def Let_def fst_bind_py snd_bind_py fst_backend snd_backend
      fst_set_mute_status fst_assign_is_muted)

lemma is_muted_toggle_mute: "is_muted (snd (toggle_mute s)) = (\<not> is_muted s)"
  by (simp add: snd_toggle_mute snd_assign_status_text is_muted_assign_is_muted)

lemma volume_scalar_toggle_mute: "volume_scalar (snd (toggle_mute s)) = volume_scalar s"
  by (simp add: snd_toggle_mute snd_assign_status_text volume_scalar_assign_is_muted)

lemma VOLUME_INTERFACE_toggle_mute:
  "VOLUME_INTERFACE (snd (toggle_mute s)) = VOLUME_INTERFACE s"
  by (simp add: snd_toggle_mute snd_assign_status_text VOLUME_INTERFACE_assign_is_muted)

lemma env_toggle_mute:
  "env (snd (toggle_mute s)) = snd (set_mute_status (VOLUME_INTERFACE s) (\<not> is_muted s) (env s))"
  by (simp add: snd_toggle_mute snd_assign_status_text env_assign_is_muted)

text \<open>The two values that \<^verbatim>\<open>check_external_change\<close> reads, and what it does with them.\<close>

lemma fst_check_external_change: "fst (check_external_change s) = Inr ()"
  by (simp add: check_external_change_def fst_bind_py snd_bind_py fst_backend snd_backend
      fst_get_current_volume_scalar fst_get_mute_status fst_assign_volume_scalar
      fst_assign_status_text fst_assign_is_muted)

lemma volume_scalar_check_external_change:
  "volume_scalar (snd (check_external_change s)) =
     (let ext = (case VOLUME_INTERFACE s of MockVolume \<Rightarrow> 0.5
                 | EndpointVolume \<Rightarrow> if next_fault (env s) then 0 else endpoint_level (env s))
      in if \<bar>volume_scalar s - ext\<bar> > 0.005 then ext else volume_scalar s)"
  by (simp add: check_external_change_def fst_bind_py snd_bind_py fst_backend snd_backend
      fst_get_current_volume_scalar fst_get_mute_status fst_assign_volume_scalar
      fst_assign_status_text fst_assign_is_muted snd_assign_status_text
      volume_scalar_assign_volume_scalar volume_scalar_assign_is_muted Let_def)

lemma is_muted_check_external_change:
  "is_muted (snd (check_external_change s)) =
     (case VOLUME_INTERFACE s of MockVolume \<Rightarrow> False
      | EndpointVolume \<Rightarrow>
          \<not> next_fault (snd (get_current_volume_scalar EndpointVolume (env s)))
          \<and> endpoint_mute (env s) = 1)"
  by (auto simp add: check_external_change_def fst_bind_py snd_bind_py fst_backend snd_backend
      fst_get_current_volume_scalar fst_get_mute_status fst_assign_volume_scalar
      fst_assign_status_text fst_assign_is_muted snd_assign_status_text
      is_muted_assign_volume_scalar is_muted_assign_is_muted snd_get_current_volume_scalar
      split: volume_interface.splits)

lemma VOLUME_INTERFACE_check_external_change:
  "VOLUME_INTERFACE (snd (check_external_change s)) = VOLUME_INTERFACE s"
  by (simp add: check_external_change_def fst_bind_py snd_bind_py fst_backend snd_backend
      fst_get_current_volume_scalar fst_get_mute_status fst_assign_volume_scalar
      fst_assign_status_text fst_assign_is_muted snd_assign_status_text
      VOLUME_INTERFACE_assign_volume_scalar VOLUME_INTERFACE_assign_is_muted)

lemma env_update_volume_from_gui:
  "env (snd (update_volume_from_gui v s)) =
     (if volume_scalar s = v \<or> volume_slider_value s = v
      then snd (set_volume_scalar (VOLUME_INTERFACE s) v (env s))
      else snd (set_volume_scalar (VOLUME_INTERFACE s) v
             (snd (set_volume_scalar (VOLUME_INTERFACE s) v (env s)))))"
  by (simp add: snd_update_volume_from_gui snd_assign_status_text env_assign_volume_scalar)

lemma env_update_volume_from_key:
  "env (snd (update_volume_from_key d s)) =
     (if volume_scalar s = max 0 (min 1 (volume_scalar s + d))
         \<or> volume_slider_value s = max 0 (min 1 (volume_scalar s + d))
      then snd (set_volume_scalar (VOLUME_INTERFACE s) (max 0 (min 1 (volume_scalar s + d)))
             (env s))
      else snd (set_volume_scalar (VOLUME_INTERFACE s) (max 0 (min 1 (volume_scalar s + d)))
             (snd (set_volume_scalar (VOLUME_INTERFACE s)
                (max 0 (min 1 (volume_scalar s + d))) (env s)))))"
  by (simp add: snd_update_volume_from_key snd_assign_status_text env_assign_volume_scalar)

lemma env_check_external_change:
  "env (snd (check_external_change s)) =
     (let ext = (case VOLUME_INTERFACE s of MockVolume \<Rightarrow> 0.5
                 | EndpointVolume \<Rightarrow> if next_fault (env s) then 0 else endpoint_level (env s));
          e2 = snd (get_mute_status (VOLUME_INTERFACE s)
                 (snd (get_current_volume_scalar (VOLUME_INTERFACE s) (env s))))
      in if \<bar>volume_scalar s - ext\<bar> > 0.005 \<and> volume_slider_value s \<noteq> ext
         then snd (set_volume_scalar (VOLUME_INTERFACE s) ext e2) else e2)"
  by (auto simp add: check_external_change_def fst_bind_py snd_bind_py fst_backend snd_backend
      fst_get_current_volume_scalar fst_get_mute_status fst_assign_volume_scalar
      fst_assign_status_text fst_assign_is_muted snd_assign_status_text
      env_assign_volume_scalar env_assign_is_muted Let_def)

lemma check_external_change_in_sync:
  assumes "VOLUME_INTERFACE s = EndpointVolume" and "faults (env s) = []"
    and "\<bar>volume_scalar s - endpoint_level (env s)\<bar> \<le> 0.005"
    and "is_muted s = (endpoint_mute (env s) = 1)"
  shows "snd (check_external_change s) = s\<lparr>env := env (snd (check_external_change s))\<rparr>"
  using assms
  by (simp add: check_external_change_def fst_bind_py snd_bind_py fst_backend snd_backend
      fst_get_current_volume_scalar fst_get_mute_status snd_get_current_volume_scalar
      snd_get_mute_status next_fault_def)


subsection \<open>The hotkey handlers of teams3mute.py on a backend that does not fail\<close>

lemma platform_call_quiet:
  "faults e = [] \<Longrightarrow> platform_call c e = (Inr (), e\<lparr>calls := calls e @ [c]\<rparr>)"
  by (cases e) (simp add: platform_call_def next_fault_def)

lemma get_volume_interface_for_default_quiet:
  "faults e = [] \<Longrightarrow>
   get_volume_interface_for_default e =
     (Inr EndpointVolume,
      e\<lparr>calls := calls e @ [CreateObjectCall, GetDefaultAudioEndpointCall, ActivateCall]\<rparr>)"
  by (simp add: get_volume_interface_for_default_def create_mmdevice_enumerator_def
      bind_py_def try_except_def return_py_def platform_call_quiet)

lemma increase_volume_quiet:
  "faults e = [] \<Longrightarrow>
   increase_volume e =
     (Inr (),
      e\<lparr>endpoint_level :=
          percent_to_scalar (min 100 (scalar_to_percent (endpoint_level e) + STEP_PERCENT)),
        calls := calls e @
          [CoInitializeCall, CreateObjectCall, GetDefaultAudioEndpointCall, ActivateCall,
           GetLevelCall,
           SetLevelCall
             (percent_to_scalar (min 100 (scalar_to_percent (endpoint_level e) + STEP_PERCENT))),
           CoUninitializeCall],
        stdout := stdout e @
          [''[+] Mic volume -> '' @
             format_0f (min 100 (scalar_to_percent (endpoint_level e) + STEP_PERCENT)) @ ''%'']\<rparr>)"
  by (simp add: increase_volume_def ensure_com_def CoInitialize_def CoUninitialize_def
      GetMasterVolumeLevelScalar_def SetMasterVolumeLevelScalar_def
      get_volume_interface_for_default_quiet platform_call_quiet
      bind_py_def try_except_def try_finally_def return_py_def print_py_def Let_def)

lemma decrease_volume_quiet:
  "faults e = [] \<Longrightarrow>
   decrease_volume e =
     (Inr (),
      e\<lparr>endpoint_level :=
          percent_to_scalar (max 0 (scalar_to_percent (endpoint_level e) - STEP_PERCENT)),
        calls := calls e @
          [CoInitializeCall, CreateObjectCall, GetDefaultAudioEndpointCall, ActivateCall,
           GetLevelCall,
           SetLevelCall
             (percent_to_scalar (max 0 (scalar_to_percent (endpoint_level e) - STEP_PERCENT))),
           CoUninitializeCall],
        stdout := stdout e @
          [''[-] Mic volume -> '' @
             format_0f (max 0 (scalar_to_percent (endpoint_level e) - STEP_PERCENT)) @ ''%'']\<rparr>)"
  by (simp add: decrease_volume_def ensure_com_def CoInitialize_def CoUninitialize_def
      GetMasterVolumeLevelScalar_def SetMasterVolumeLevelScalar_def
      get_volume_interface_for_default_quiet platform_call_quiet
      bind_py_def try_except_def try_finally_def return_py_def print_py_def Let_def)

lemma toggle_mute_hotkey_quiet:
  "faults e = [] \<Longrightarrow>
   toggle_mute_hotkey e =
     (Inr (),
      e\<lparr>endpoint_mute := (if endpoint_mute e \<noteq> 0 then 0 else 1),
        calls := calls e @
          [CoInitializeCall, CreateObjectCall, GetDefaultAudioEndpointCall, ActivateCall,
           GetMuteCall, SetMuteCall (if endpoint_mute e \<noteq> 0 then 0 else 1),
           CoUninitializeCall],
        stdout := stdout e @
          [if endpoint_mute e \<noteq> 0 then ''[U] Mic muted -> False''
           else ''[M] Mic muted -> True'']\<rparr>)"
  by (simp add: toggle_mute_hotkey_def ensure_com_def CoInitialize_def CoUninitialize_def
      GetMute_def SetMute_def get_volume_interface_for_default_quiet platform_call_quiet
      bind_py_def try_except_def try_finally_def return_py_def print_py_def Let_def)

text \<open>Whatever fails, \<^verbatim>\<open>toggle_mute\<close> of teams3mute.py never writes the level.\<close>

lemma endpoint_level_platform_call:
  "endpoint_level (snd (platform_call c e)) = endpoint_level e"
  by (simp add: platform_call_def)

lemma endpoint_level_toggle_mute_hotkey:
  "endpoint_level (snd (toggle_mute_hotkey e)) = endpoint_level e"
  by (simp add: toggle_mute_hotkey_def ensure_com_def CoInitialize_def CoUninitialize_def
      GetMute_def SetMute_def get_volume_interface_for_default_def
      create_mmdevice_enumerator_def py_proj Let_def)

subsection \<open>Repeated steps\<close>







subsection \<open>The poll of MicApp\<close>

lemma fst_get_new_interface:
  "fst (get_new_interface e) = Inl COMError \<or> fst (get_new_interface e) = Inr EndpointVolume"
  by (simp add: get_new_interface_def create_mmdevice_enumerator_def py_proj)

lemma get_new_interface_quiet:
  "faults e = [] \<Longrightarrow>
   get_new_interface e =
     (Inr EndpointVolume,
      e\<lparr>calls := calls e @ [CreateObjectCall, GetDefaultAudioEndpointCall, ActivateCall]\<rparr>)"
  by (simp add: get_new_interface_def create_mmdevice_enumerator_def
      bind_py_def try_except_def return_py_def platform_call_quiet)

lemma fst_update_ui: "fst (update_ui p m s) = Inr ()"
  by (simp add: update_ui_def)

lemma fst_check_mic_status: "fst (check_mic_status s) = Inr ()"
proof (cases "cached_interface s")
  case None
  then show ?thesis by (simp add: check_mic_status_def)
next
  case (Some vol)
  have inner: "fst (try_except
                   (bind_py (in_mic_env get_new_interface) (\<lambda>vi s.
                      (Inr (), s\<lparr>cached_interface := Some vi\<rparr>)))
                   (\<lambda>e. return_py ()) t) = Inr ()" for t
    by (simp add: fst_try_except fst_bind_py fst_return_py split: sum.splits)
  show ?thesis
    using Some inner
    by (simp add: check_mic_status_def fst_try_except fst_bind_py fst_update_ui Let_def
        split: sum.splits)
qed

lemma check_mic_status_None:
  "cached_interface s = None \<Longrightarrow> check_mic_status s = (Inr (), s)"
  by (simp add: check_mic_status_def)

lemma repeat_check_mic_status_None:
  "cached_interface s = None \<Longrightarrow> repeat_py n check_mic_status s = (Inr (), s)"
  by (induction n) (simp_all add: return_py_def bind_py_def check_mic_status_None)

lemma check_mic_status_quiet:
  "cached_interface s = Some EndpointVolume \<Longrightarrow> faults (mic_env s) = [] \<Longrightarrow>
   check_mic_status s =
     update_ui (scalar_to_percent (endpoint_level (mic_env s))) (endpoint_mute (mic_env s) \<noteq> 0)
       (s\<lparr>mic_env := (mic_env s)\<lparr>calls := calls (mic_env s) @ [GetLevelCall, GetMuteCall]\<rparr>\<rparr>)"
  by (simp add: check_mic_status_def try_except_def bind_py_def in_mic_env_def
      GetMasterVolumeLevelScalar_def GetMute_def platform_call_quiet update_ui_def Let_def)

lemma check_mic_status_reconnects:
  "cached_interface s = Some EndpointVolume \<Longrightarrow> faults (mic_env s) = [True] \<Longrightarrow>
   check_mic_status s =
     (Inr (), s\<lparr>mic_env := (mic_env s)\<lparr>faults := [],
        calls := calls (mic_env s) @
          [GetLevelCall, CreateObjectCall, GetDefaultAudioEndpointCall, ActivateCall]\<rparr>\<rparr>)"
  by (simp add: check_mic_status_def try_except_def bind_py_def in_mic_env_def
      GetMasterVolumeLevelScalar_def platform_call_def next_fault_def
      get_new_interface_def create_mmdevice_enumerator_def return_py_def)

subsection \<open>Rounding and the texts shown\<close>












subsection \<open>Acquiring the interface at startup\<close>

lemma fst_get_volume_interface:
  "fst (get_volume_interface e) =
     Inr (if True \<in> set (take 3 (faults e)) then MockVolume else EndpointVolume)"
proof (cases "faults e")
  case Nil
  then show ?thesis
    by (simp add: get_volume_interface_def CoInitialize_def py_proj next_fault_def)
next
  case (Cons a as)
  note c1 = Cons
  show ?thesis
  proof (cases as)
    case Nil
    with c1 show ?thesis
      by (simp add: get_volume_interface_def CoInitialize_def py_proj next_fault_def)
  next
    case (Cons b bs)
    note c2 = Cons
    show ?thesis
    proof (cases bs)
      case Nil
      with c1 c2 show ?thesis
        by (auto simp add: get_volume_interface_def CoInitialize_def py_proj next_fault_def)
    next
      case (Cons c cs)
      with c1 c2 show ?thesis
        by (auto simp add: get_volume_interface_def CoInitialize_def py_proj next_fault_def)
    qed
  qed
qed

lemma endpoint_get_volume_interface:
  "endpoint_level (snd (get_volume_interface e)) = endpoint_level e
   \<and> endpoint_mute (snd (get_volume_interface e)) = endpoint_mute e"
  by (simp add: get_volume_interface_def CoInitialize_def py_proj)

lemma mock_backend_functions:
  "get_current_volume_scalar MockVolume e = (Inr 0.5, e)"
  "get_mute_status MockVolume e = (Inr False, e)"
  "set_volume_scalar MockVolume l e = (Inr (), e)"
  "set_mute_status MockVolume b e = (Inr (), e)"
  by (simp_all add: get_current_volume_scalar_def get_mute_status_def set_volume_scalar_def
      set_mute_status_def GetMasterVolumeLevelScalar_def GetMute_def
      SetMasterVolumeLevelScalar_def SetMute_def try_except_def bind_py_def return_py_def)

lemma start_app_with_mock:
  assumes "True \<in> set (take 3 (faults e))"
  shows "\<exists>a. start_app e = Inr a \<and> VOLUME_INTERFACE a = MockVolume
           \<and> volume_scalar a = 0.5 \<and> is_muted a = False
           \<and> env a = snd (get_volume_interface e)"
proof -
  obtain e1 where g: "get_volume_interface e = (Inr MockVolume, e1)"
    using fst_get_volume_interface [of e] assms
    by (cases "get_volume_interface e") simp
  then show ?thesis
    by (simp add: start_app_def bind_py_def return_py_def mock_backend_functions)
qed

lemma env_check_external_change_mock:
  "VOLUME_INTERFACE s = MockVolume \<Longrightarrow> env (snd (check_external_change s)) = env s"
  by (simp add: env_check_external_change snd_get_current_volume_scalar snd_get_mute_status
      snd_set_volume_scalar Let_def)

section \<open>The claims\<close>

subsection \<open>C1: levels stored and written by the slider path and the keyboard path\<close>




subsection \<open>C2: what a poll does to the cached state\<close>

text \<open>
  C2, as stated, fails where the level is within the tolerance and only the mute flag
  differs: the cache is then not "updated to the backend state". From the cache
  \<open>{level: 0.5, muted: false}\<close> and the backend \<open>{level: 0.503, muted: true}\<close> the poll
  leaves \<open>{level: 0.5, muted: true}\<close> in the cache.
\<close>

theorem check_external_change_keeps_close_level:
  "is_muted (example_app\<lparr>env := quiet_environment\<lparr>endpoint_level := 0.503, endpoint_mute := 1\<rparr>\<rparr>)
     \<noteq> (endpoint_mute (quiet_environment\<lparr>endpoint_level := 0.503, endpoint_mute := 1\<rparr>) = 1)
   \<and> volume_scalar (snd (check_external_change
        (example_app\<lparr>env := quiet_environment\<lparr>endpoint_level := 0.503, endpoint_mute := 1\<rparr>\<rparr>)))
       = 0.5
   \<and> is_muted (snd (check_external_change
        (example_app\<lparr>env := quiet_environment\<lparr>endpoint_level := 0.503, endpoint_mute := 1\<rparr>\<rparr>)))
   \<and> endpoint_level (env (snd (check_external_change
        (example_app\<lparr>env := quiet_environment\<lparr>endpoint_level := 0.503, endpoint_mute := 1\<rparr>\<rparr>))))
       = 0.503
   \<and> volume_scalar (snd (check_external_change
        (example_app\<lparr>env := quiet_environment\<lparr>endpoint_level := 0.503, endpoint_mute := 1\<rparr>\<rparr>)))
       \<noteq> endpoint_level (env (snd (check_external_change
        (example_app\<lparr>env := quiet_environment\<lparr>endpoint_level := 0.503, endpoint_mute := 1\<rparr>\<rparr>))))"
  by (simp add: volume_scalar_check_external_change is_muted_check_external_change
      env_check_external_change snd_get_current_volume_scalar snd_get_mute_status
      next_fault_def example_app_def quiet_environment_def)

text \<open>
  C2, amended: on a working endpoint, \<^verbatim>\<open>check_external_change\<close> returns no value in every
  case and never changes the endpoint's level or mute flag. It reconciles the two cached
  fields independently: the cached level becomes the backend's level exactly when the two
  differ by more than \<open>0.005\<close>, and the cached mute flag becomes the backend's
  (\<^verbatim>\<open>GetMute() == 1\<close>). When the level is within \<open>0.005\<close> and the mute flags agree,
  nothing of the widget changes. From the cache \<open>{level: 0.5, muted: false}\<close> and the
  backend \<open>{level: 0.7, muted: false}\<close> the cache becomes \<open>{level: 0.7, muted: false}\<close>.
\<close>

theorem check_external_change_reconciles:
  assumes "VOLUME_INTERFACE s = EndpointVolume" and "faults (env s) = []"
  shows "fst (check_external_change s) = Inr ()
    \<and> volume_scalar (snd (check_external_change s)) =
        (if \<bar>volume_scalar s - endpoint_level (env s)\<bar> > 0.005
         then endpoint_level (env s) else volume_scalar s)
    \<and> is_muted (snd (check_external_change s)) = (endpoint_mute (env s) = 1)
    \<and> endpoint_level (env (snd (check_external_change s))) = endpoint_level (env s)
    \<and> endpoint_mute (env (snd (check_external_change s))) = endpoint_mute (env s)
    \<and> (\<bar>volume_scalar s - endpoint_level (env s)\<bar> \<le> 0.005
         \<and> is_muted s = (endpoint_mute (env s) = 1)
       \<longrightarrow> snd (check_external_change s) = s\<lparr>env := env (snd (check_external_change s))\<rparr>)"
proof -
  have nf: "\<not> next_fault (env s)"
    using assms(2) by (simp add: next_fault_def)
  have level: "volume_scalar (snd (check_external_change s)) =
        (if \<bar>volume_scalar s - endpoint_level (env s)\<bar> > 0.005
         then endpoint_level (env s) else volume_scalar s)"
    using assms(1) nf by (simp add: volume_scalar_check_external_change)
  have mute: "is_muted (snd (check_external_change s)) = (endpoint_mute (env s) = 1)"
    using assms
    by (simp add: is_muted_check_external_change snd_get_current_volume_scalar next_fault_def)
  have backend_level: "endpoint_level (env (snd (check_external_change s))) = endpoint_level (env s)"
    using assms
    by (simp add: env_check_external_change snd_get_current_volume_scalar snd_get_mute_status
        snd_set_volume_scalar next_fault_def Let_def)
  have backend_mute: "endpoint_mute (env (snd (check_external_change s))) = endpoint_mute (env s)"
    using assms
    by (simp add: env_check_external_change snd_get_current_volume_scalar snd_get_mute_status
        snd_set_volume_scalar next_fault_def Let_def)
  have same: "\<bar>volume_scalar s - endpoint_level (env s)\<bar> \<le> 0.005
         \<and> is_muted s = (endpoint_mute (env s) = 1)
       \<longrightarrow> snd (check_external_change s) = s\<lparr>env := env (snd (check_external_change s))\<rparr>"
    using assms check_external_change_in_sync [of s] by blast
  from level mute backend_level backend_mute same show ?thesis
    by (simp add: fst_check_external_change)
qed

theorem check_external_change_reconciles_witness:
  "volume_scalar (snd (check_external_change
      (example_app\<lparr>env := quiet_environment\<lparr>endpoint_level := 0.7\<rparr>\<rparr>))) = 0.7
   \<and> is_muted (snd (check_external_change
      (example_app\<lparr>env := quiet_environment\<lparr>endpoint_level := 0.7\<rparr>\<rparr>))) = False
   \<and> snd (check_external_change example_app) =
       example_app\<lparr>env := env (snd (check_external_change example_app))\<rparr>"
proof -
  have a: "VOLUME_INTERFACE (example_app\<lparr>env := quiet_environment\<lparr>endpoint_level := 0.7\<rparr>\<rparr>)
      = EndpointVolume"
    by (simp add: example_app_def)
  have b: "faults (env (example_app\<lparr>env := quiet_environment\<lparr>endpoint_level := 0.7\<rparr>\<rparr>)) = []"
    by (simp add: quiet_environment_def)
  have c: "VOLUME_INTERFACE example_app = EndpointVolume"
    by (simp add: example_app_def)
  have d: "faults (env example_app) = []"
    by (simp add: example_app_def quiet_environment_def)
  have e: "\<bar>volume_scalar example_app - endpoint_level (env example_app)\<bar> \<le> 0.005
      \<and> is_muted example_app = (endpoint_mute (env example_app) = 1)"
    by (simp add: example_app_def quiet_environment_def)
  have f: "volume_scalar (example_app\<lparr>env := quiet_environment\<lparr>endpoint_level := 0.7\<rparr>\<rparr>) = 0.5
      \<and> endpoint_level (env (example_app\<lparr>env := quiet_environment\<lparr>endpoint_level := 0.7\<rparr>\<rparr>)) = 0.7
      \<and> endpoint_mute (env (example_app\<lparr>env := quiet_environment\<lparr>endpoint_level := 0.7\<rparr>\<rparr>)) = 0"
    by (simp add: example_app_def quiet_environment_def)
  from check_external_change_reconciles [OF a b] check_external_change_reconciles [OF c d] e f
  show ?thesis by simp
qed

subsection \<open>C3: a backend write that raises during set_level\<close>




subsection \<open>C4: backend failures during any operation\<close>




subsection \<open>C5: toggling mute twice\<close>

text \<open>
  C5: for every state of the widget, \<^verbatim>\<open>toggle_mute\<close> inverts the cached mute flag, two calls
  restore it, and neither call changes the cached level or writes a level to the
  endpoint. The hotkey handler \<^verbatim>\<open>toggle_mute\<close> of teams3mute.py never changes the
  endpoint's level either, and on a backend that does not fail two calls restore the
  endpoint's mute flag (as Python's \<^verbatim>\<open>bool\<close> reads it).
\<close>

theorem toggle_mute_twice:
  "is_muted (snd (toggle_mute s)) = (\<not> is_muted s)
   \<and> is_muted (snd (toggle_mute (snd (toggle_mute s)))) = is_muted s
   \<and> volume_scalar (snd (toggle_mute s)) = volume_scalar s
   \<and> volume_scalar (snd (toggle_mute (snd (toggle_mute s)))) = volume_scalar s
   \<and> endpoint_level (env (snd (toggle_mute s))) = endpoint_level (env s)
   \<and> endpoint_level (snd (toggle_mute_hotkey e)) = endpoint_level e
   \<and> endpoint_level (snd (toggle_mute_hotkey (snd (toggle_mute_hotkey e)))) = endpoint_level e
   \<and> (faults e = [] \<longrightarrow>
        (endpoint_mute (snd (toggle_mute_hotkey e)) \<noteq> 0) = (\<not> endpoint_mute e \<noteq> 0)
        \<and> (endpoint_mute (snd (toggle_mute_hotkey (snd (toggle_mute_hotkey e)))) \<noteq> 0)
            = (endpoint_mute e \<noteq> 0))"
proof -
  have backend_level: "endpoint_level (env (snd (toggle_mute s))) = endpoint_level (env s)"
    by (simp add: env_toggle_mute snd_set_mute_status split: volume_interface.splits)
  have hotkey: "faults e = [] \<longrightarrow>
        (endpoint_mute (snd (toggle_mute_hotkey e)) \<noteq> 0) = (\<not> endpoint_mute e \<noteq> 0)
        \<and> (endpoint_mute (snd (toggle_mute_hotkey (snd (toggle_mute_hotkey e)))) \<noteq> 0)
            = (endpoint_mute e \<noteq> 0)"
    by (simp add: toggle_mute_hotkey_quiet)
  from backend_level hotkey show ?thesis
    by (simp add: is_muted_toggle_mute volume_scalar_toggle_mute
        endpoint_level_toggle_mute_hotkey)
qed

theorem toggle_mute_twice_witness:
  "is_muted (snd (toggle_mute example_app))
   \<and> \<not> is_muted (snd (toggle_mute (snd (toggle_mute example_app))))
   \<and> volume_scalar (snd (toggle_mute example_app)) = 0.5
   \<and> endpoint_mute (snd (toggle_mute_hotkey quiet_environment)) = 1
   \<and> endpoint_mute (snd (toggle_mute_hotkey (snd (toggle_mute_hotkey quiet_environment)))) = 0"
proof -
  have a: "faults quiet_environment = []" "endpoint_mute quiet_environment = 0"
    by (simp_all add: quiet_environment_def)
  have b: "is_muted example_app = False" "volume_scalar example_app = 0.5"
    by (simp_all add: example_app_def)
  have c: "endpoint_mute (snd (toggle_mute_hotkey quiet_environment)) = 1"
    using a by (simp add: toggle_mute_hotkey_quiet)
  from toggle_mute_twice [of example_app quiet_environment] a b c show ?thesis
    by simp
qed

subsection \<open>C6: twenty steps of five percent\<close>



subsection \<open>C7: how a step computes the new level\<close>

text \<open>
  C7, as stated, fails for the hotkey step: \<^verbatim>\<open>increase_volume\<close> of teams3mute.py keeps no
  cached level and reads the backend on every call. On the quiet environment (endpoint at
  \<open>0.5\<close>) its calls include \<open>GetLevelCall\<close>, and from an endpoint at \<open>0.2\<close> it
  writes \<open>0.25\<close>.
\<close>

theorem increase_volume_reads_backend:
  "GetLevelCall \<in> set (calls (snd (increase_volume quiet_environment)))
   \<and> calls (snd (increase_volume quiet_environment)) =
       [CoInitializeCall, CreateObjectCall, GetDefaultAudioEndpointCall, ActivateCall,
        GetLevelCall, SetLevelCall 0.55, CoUninitializeCall]
   \<and> endpoint_level (snd (increase_volume (quiet_environment\<lparr>endpoint_level := 0.2\<rparr>))) = 0.25"
proof -
  have a: "faults quiet_environment = []"
    "faults (quiet_environment\<lparr>endpoint_level := 0.2\<rparr>) = []"
    by (simp_all add: quiet_environment_def)
  have b: "endpoint_level quiet_environment = 0.5" "calls quiet_environment = []"
    by (simp_all add: quiet_environment_def)
  have c: "endpoint_level (snd (increase_volume (quiet_environment\<lparr>endpoint_level := 0.2\<rparr>)))
      = 0.25"
    using increase_volume_quiet [OF a(2)]
    by (simp add: percent_to_scalar_def scalar_to_percent_def STEP_PERCENT_def)
  have d: "calls (snd (increase_volume quiet_environment)) =
       [CoInitializeCall, CreateObjectCall, GetDefaultAudioEndpointCall, ActivateCall,
        GetLevelCall, SetLevelCall 0.55, CoUninitializeCall]"
    using increase_volume_quiet [OF a(1)]
    by (simp add: percent_to_scalar_def scalar_to_percent_def STEP_PERCENT_def b)
  from c d show ?thesis by simp
qed

text \<open>
  C7, amended: the keyboard step \<^verbatim>\<open>update_volume_from_key(delta)\<close> reads the cached level,
  adds \<open>delta\<close>, clamps to \<open>[0, 1]\<close>, stores the result in the cache and issues only
  writes of that result to the backend (no read); on a working endpoint the endpoint's
  level becomes that result. The hotkey steps \<^verbatim>\<open>increase_volume\<close> and
  \<^verbatim>\<open>decrease_volume\<close> keep no cache: on a backend that does not fail they read the
  backend's level \<open>l\<close>, and write \<open>clamp01 (min 100 (clamp0_100 (100 l) + 5) / 100)\<close>,
  respectively \<open>clamp01 (max 0 (clamp0_100 (100 l) - 5) / 100)\<close>.
\<close>

theorem adjust_level_steps:
  "volume_scalar (snd (update_volume_from_key d s)) = max 0 (min 1 (volume_scalar s + d))
   \<and> (\<exists>n. calls (env (snd (update_volume_from_key d s))) =
          calls (env s) @ replicate n (SetLevelCall (max 0 (min 1 (volume_scalar s + d)))))
   \<and> (VOLUME_INTERFACE s = EndpointVolume \<and> faults (env s) = [] \<longrightarrow>
        endpoint_level (env (snd (update_volume_from_key d s)))
          = max 0 (min 1 (volume_scalar s + d)))
   \<and> (faults e = [] \<longrightarrow>
        endpoint_level (snd (increase_volume e)) =
          max 0 (min 1 (min 100 (max 0 (min 100 (endpoint_level e * 100)) + 5) / 100))
        \<and> calls (snd (increase_volume e)) = calls e @
            [CoInitializeCall, CreateObjectCall, GetDefaultAudioEndpointCall, ActivateCall,
             GetLevelCall, SetLevelCall (endpoint_level (snd (increase_volume e))),
             CoUninitializeCall]
        \<and> endpoint_level (snd (decrease_volume e)) =
          max 0 (min 1 (max 0 (max 0 (min 100 (endpoint_level e * 100)) - 5) / 100))
        \<and> calls (snd (decrease_volume e)) = calls e @
            [CoInitializeCall, CreateObjectCall, GetDefaultAudioEndpointCall, ActivateCall,
             GetLevelCall, SetLevelCall (endpoint_level (snd (decrease_volume e))),
             CoUninitializeCall])"
proof -
  have key_calls: "\<exists>n. calls (env (snd (update_volume_from_key d s))) =
          calls (env s) @ replicate n (SetLevelCall (max 0 (min 1 (volume_scalar s + d))))"
    unfolding calls_update_volume_from_key by blast
  have key_backend: "VOLUME_INTERFACE s = EndpointVolume \<and> faults (env s) = [] \<longrightarrow>
        endpoint_level (env (snd (update_volume_from_key d s)))
          = max 0 (min 1 (volume_scalar s + d))"
    by (simp add: env_update_volume_from_key snd_set_volume_scalar next_fault_def)
  have hot: "faults e = [] \<longrightarrow>
        endpoint_level (snd (increase_volume e)) =
          max 0 (min 1 (min 100 (max 0 (min 100 (endpoint_level e * 100)) + 5) / 100))
        \<and> calls (snd (increase_volume e)) = calls e @
            [CoInitializeCall, CreateObjectCall, GetDefaultAudioEndpointCall, ActivateCall,
             GetLevelCall, SetLevelCall (endpoint_level (snd (increase_volume e))),
             CoUninitializeCall]
        \<and> endpoint_level (snd (decrease_volume e)) =
          max 0 (min 1 (max 0 (max 0 (min 100 (endpoint_level e * 100)) - 5) / 100))
        \<and> calls (snd (decrease_volume e)) = calls e @
            [CoInitializeCall, CreateObjectCall, GetDefaultAudioEndpointCall, ActivateCall,
             GetLevelCall, SetLevelCall (endpoint_level (snd (decrease_volume e))),
             CoUninitializeCall]"
    by (simp add: increase_volume_quiet decrease_volume_quiet percent_to_scalar_def
        scalar_to_percent_def STEP_PERCENT_def)
  from key_calls key_backend hot show ?thesis
    by (simp add: volume_scalar_update_volume_from_key)
qed

theorem adjust_level_steps_witness:
  "volume_scalar (snd (update_volume_from_key 0.05
       (example_app\<lparr>env := quiet_environment\<lparr>endpoint_level := 0.2\<rparr>\<rparr>))) = 0.55
   \<and> endpoint_level (env (snd (update_volume_from_key 0.05
       (example_app\<lparr>env := quiet_environment\<lparr>endpoint_level := 0.2\<rparr>\<rparr>)))) = 0.55
   \<and> endpoint_level (snd (increase_volume (quiet_environment\<lparr>endpoint_level := 0.2\<rparr>))) = 0.25
   \<and> endpoint_level (snd (decrease_volume (quiet_environment\<lparr>endpoint_level := 0.2\<rparr>))) = 0.15"
proof -
  have a: "VOLUME_INTERFACE (example_app\<lparr>env := quiet_environment\<lparr>endpoint_level := 0.2\<rparr>\<rparr>)
        = EndpointVolume
      \<and> faults (env (example_app\<lparr>env := quiet_environment\<lparr>endpoint_level := 0.2\<rparr>\<rparr>)) = []
      \<and> volume_scalar (example_app\<lparr>env := quiet_environment\<lparr>endpoint_level := 0.2\<rparr>\<rparr>) = 0.5"
    by (simp add: example_app_def quiet_environment_def)
  have b: "faults (quiet_environment\<lparr>endpoint_level := 0.2\<rparr>) = []
      \<and> endpoint_level (quiet_environment\<lparr>endpoint_level := 0.2\<rparr>) = 0.2"
    by (simp add: quiet_environment_def)
  from adjust_level_steps [of "0.05"
      "example_app\<lparr>env := quiet_environment\<lparr>endpoint_level := 0.2\<rparr>\<rparr>"
      "quiet_environment\<lparr>endpoint_level := 0.2\<rparr>"] a b
  show ?thesis by simp
qed

subsection \<open>C8: polling after a backend error, and re-acquiring the connection\<close>

text \<open>
  C8, as stated, fails: the connection is not re-acquired on the next call when the
  connection at startup failed. If the platform fails while \<^verbatim>\<open>on_start\<close> acquires the
  interface and works from then on, \<open>cached_interface\<close> is \<open>None\<close>, and every later
  tick of \<^verbatim>\<open>check_mic_status\<close> returns at once: no platform call is made and the user
  interface stays as it was.
\<close>

theorem check_mic_status_never_retries_after_failed_start:
  "cached_interface (snd (on_start (initial_mic_app
       (quiet_environment\<lparr>faults := [False, True, True]\<rparr>)))) = None
   \<and> faults (mic_env (snd (on_start (initial_mic_app
       (quiet_environment\<lparr>faults := [False, True, True]\<rparr>))))) = []
   \<and> repeat_py 5 check_mic_status (snd (on_start (initial_mic_app
       (quiet_environment\<lparr>faults := [False, True, True]\<rparr>))))
      = (Inr (), snd (on_start (initial_mic_app
       (quiet_environment\<lparr>faults := [False, True, True]\<rparr>))))
   \<and> status_lbl_text (snd (repeat_py 5 check_mic_status (snd (on_start (initial_mic_app
       (quiet_environment\<lparr>faults := [False, True, True]\<rparr>)))))) = ''--''"
proof -
  have start: "cached_interface (snd (on_start (initial_mic_app
       (quiet_environment\<lparr>faults := [False, True, True]\<rparr>)))) = None
     \<and> faults (mic_env (snd (on_start (initial_mic_app
       (quiet_environment\<lparr>faults := [False, True, True]\<rparr>))))) = []
     \<and> status_lbl_text (snd (on_start (initial_mic_app
       (quiet_environment\<lparr>faults := [False, True, True]\<rparr>)))) = ''--''"
    by (simp add: on_start_def initial_mic_app_def get_new_interface_def
        create_mmdevice_enumerator_def CoInitialize_def py_proj fst_in_mic_env snd_in_mic_env
        next_fault_def)
  then have "repeat_py 5 check_mic_status (snd (on_start (initial_mic_app
       (quiet_environment\<lparr>faults := [False, True, True]\<rparr>))))
      = (Inr (), snd (on_start (initial_mic_app
       (quiet_environment\<lparr>faults := [False, True, True]\<rparr>))))"
    by (simp add: repeat_check_mic_status_None)
  with start show ?thesis by simp
qed

text \<open>
  C8, amended: no backend error is fatal to polling: \<^verbatim>\<open>check_mic_status\<close> and
  \<^verbatim>\<open>check_external_change\<close> return normally in every state and for every pattern of
  failures, so the clock keeps calling them. In teams3micKivy.py a poll through a cached
  interface whose read raises makes one attempt, in the same tick, to acquire a new
  interface; when the backend has recovered by then, the next poll succeeds and shows the
  endpoint's level. When the connection at startup failed (\<open>cached_interface\<close> is
  \<open>None\<close>), a poll does nothing and never retries. The widget of
  masterAudioContolKivy.py never re-acquires its interface: no operation changes
  \<^verbatim>\<open>VOLUME_INTERFACE\<close>.
\<close>

theorem polling_survives_backend_errors:
  "fst (check_mic_status m) = Inr ()
   \<and> fst (check_external_change s) = Inr ()
   \<and> (cached_interface m = None \<longrightarrow> repeat_py n check_mic_status m = (Inr (), m))
   \<and> (cached_interface m = Some EndpointVolume \<and> faults (mic_env m) = [True] \<longrightarrow>
        cached_interface (snd (check_mic_status m)) = Some EndpointVolume
        \<and> calls (mic_env (snd (check_mic_status m))) = calls (mic_env m) @
            [GetLevelCall, CreateObjectCall, GetDefaultAudioEndpointCall, ActivateCall]
        \<and> vol_bar_value (snd (check_mic_status m)) = vol_bar_value m
        \<and> fst (repeat_py 2 check_mic_status m) = Inr ()
        \<and> vol_bar_value (snd (repeat_py 2 check_mic_status m))
            = scalar_to_percent (endpoint_level (mic_env m)))
   \<and> VOLUME_INTERFACE (snd (check_external_change s)) = VOLUME_INTERFACE s
   \<and> VOLUME_INTERFACE (snd (update_volume_from_gui v s)) = VOLUME_INTERFACE s
   \<and> VOLUME_INTERFACE (snd (update_volume_from_key d s)) = VOLUME_INTERFACE s
   \<and> VOLUME_INTERFACE (snd (toggle_mute s)) = VOLUME_INTERFACE s"
proof -
  have retry: "cached_interface m = Some EndpointVolume \<and> faults (mic_env m) = [True] \<longrightarrow>
        cached_interface (snd (check_mic_status m)) = Some EndpointVolume
        \<and> calls (mic_env (snd (check_mic_status m))) = calls (mic_env m) @
            [GetLevelCall, CreateObjectCall, GetDefaultAudioEndpointCall, ActivateCall]
        \<and> vol_bar_value (snd (check_mic_status m)) = vol_bar_value m
        \<and> fst (repeat_py 2 check_mic_status m) = Inr ()
        \<and> vol_bar_value (snd (repeat_py 2 check_mic_status m))
            = scalar_to_percent (endpoint_level (mic_env m))"
  proof
    assume a: "cached_interface m = Some EndpointVolume \<and> faults (mic_env m) = [True]"
    let ?t = "m\<lparr>mic_env := (mic_env m)\<lparr>faults := [],
        calls := calls (mic_env m) @
          [GetLevelCall, CreateObjectCall, GetDefaultAudioEndpointCall, ActivateCall]\<rparr>\<rparr>"
    have first: "check_mic_status m = (Inr (), ?t)"
      using a by (simp add: check_mic_status_reconnects)
    have second: "check_mic_status ?t =
        update_ui (scalar_to_percent (endpoint_level (mic_env ?t)))
          (endpoint_mute (mic_env ?t) \<noteq> 0)
          (?t\<lparr>mic_env := (mic_env ?t)\<lparr>calls := calls (mic_env ?t) @ [GetLevelCall, GetMuteCall]\<rparr>\<rparr>)"
      using a by (intro check_mic_status_quiet) simp_all
    have two: "repeat_py 2 check_mic_status m = check_mic_status ?t"
      by (simp add: numeral_2_eq_2 bind_py_def return_py_def first split: prod.splits sum.splits)
    show "cached_interface (snd (check_mic_status m)) = Some EndpointVolume
        \<and> calls (mic_env (snd (check_mic_status m))) = calls (mic_env m) @
            [GetLevelCall, CreateObjectCall, GetDefaultAudioEndpointCall, ActivateCall]
        \<and> vol_bar_value (snd (check_mic_status m)) = vol_bar_value m
        \<and> fst (repeat_py 2 check_mic_status m) = Inr ()
        \<and> vol_bar_value (snd (repeat_py 2 check_mic_status m))
            = scalar_to_percent (endpoint_level (mic_env m))"
      using a unfolding two second first
      by (simp add: update_ui_def)
  qed
  have none: "cached_interface m = None \<longrightarrow> repeat_py n check_mic_status m = (Inr (), m)"
    by (simp add: repeat_check_mic_status_None)
  from retry none show ?thesis
    by (simp add: fst_check_mic_status fst_check_external_change
        VOLUME_INTERFACE_check_external_change VOLUME_INTERFACE_update_volume_from_gui
        VOLUME_INTERFACE_update_volume_from_key VOLUME_INTERFACE_toggle_mute)
qed

theorem polling_survives_backend_errors_witness:
  "fst (check_mic_status ((initial_mic_app (quiet_environment\<lparr>faults := [True]\<rparr>))
       \<lparr>cached_interface := Some EndpointVolume\<rparr>)) = Inr ()
   \<and> cached_interface (snd (check_mic_status
       ((initial_mic_app (quiet_environment\<lparr>faults := [True]\<rparr>))
         \<lparr>cached_interface := Some EndpointVolume\<rparr>))) = Some EndpointVolume
   \<and> vol_bar_value (snd (check_mic_status
       ((initial_mic_app (quiet_environment\<lparr>faults := [True]\<rparr>))
         \<lparr>cached_interface := Some EndpointVolume\<rparr>))) = 0
   \<and> vol_bar_value (snd (repeat_py 2 check_mic_status
       ((initial_mic_app (quiet_environment\<lparr>faults := [True]\<rparr>))
         \<lparr>cached_interface := Some EndpointVolume\<rparr>))) = 50
   \<and> repeat_py 3 check_mic_status (initial_mic_app quiet_environment)
       = (Inr (), initial_mic_app quiet_environment)"
proof -
  have a: "cached_interface ((initial_mic_app (quiet_environment\<lparr>faults := [True]\<rparr>))
         \<lparr>cached_interface := Some EndpointVolume\<rparr>) = Some EndpointVolume
      \<and> faults (mic_env ((initial_mic_app (quiet_environment\<lparr>faults := [True]\<rparr>))
         \<lparr>cached_interface := Some EndpointVolume\<rparr>)) = [True]
      \<and> vol_bar_value ((initial_mic_app (quiet_environment\<lparr>faults := [True]\<rparr>))
         \<lparr>cached_interface := Some EndpointVolume\<rparr>) = 0
      \<and> scalar_to_percent (endpoint_level (mic_env
          ((initial_mic_app (quiet_environment\<lparr>faults := [True]\<rparr>))
         \<lparr>cached_interface := Some EndpointVolume\<rparr>))) = 50"
    by (simp add: initial_mic_app_def quiet_environment_def scalar_to_percent_def)
  have b: "cached_interface (initial_mic_app quiet_environment) = None"
    by (simp add: initial_mic_app_def)
  from polling_survives_backend_errors
         [of "(initial_mic_app (quiet_environment\<lparr>faults := [True]\<rparr>))
                \<lparr>cached_interface := Some EndpointVolume\<rparr>" example_app 2 "0.3" "0.05"]
       polling_survives_backend_errors
         [of "initial_mic_app quiet_environment" example_app 3 "0.3" "0.05"] a b
  show ?thesis by simp
qed

subsection \<open>C9: the percent shown to the user\<close>



subsection \<open>C10: the fallback to the mock at startup\<close>

text \<open>
  C10: if one of the three platform calls of \<^verbatim>\<open>get_volume_interface\<close> raises at startup,
  the application starts all the same, with \<^verbatim>\<open>VOLUME_INTERFACE\<close> the mock and the cached
  state \<open>{level: 0.5, muted: false}\<close>, and without having changed the endpoint. On the
  mock the level read is always \<open>0.5\<close>, the mute read is always \<open>False\<close>, and a set call
  does nothing; every operation of the widget then leaves the interface the mock and
  the whole environment (endpoint, log of platform calls, console) as it was.
\<close>

theorem startup_failure_falls_back_to_mock:
  "(True \<in> set (take 3 (faults e)) \<longrightarrow>
      (\<exists>a. start_app e = Inr a \<and> VOLUME_INTERFACE a = MockVolume
           \<and> volume_scalar a = 0.5 \<and> is_muted a = False
           \<and> endpoint_level (env a) = endpoint_level e
           \<and> endpoint_mute (env a) = endpoint_mute e))
   \<and> get_current_volume_scalar MockVolume e = (Inr 0.5, e)
   \<and> get_mute_status MockVolume e = (Inr False, e)
   \<and> set_volume_scalar MockVolume l e = (Inr (), e)
   \<and> set_mute_status MockVolume b e = (Inr (), e)
   \<and> (VOLUME_INTERFACE s = MockVolume \<longrightarrow>
        env (snd (update_volume_from_gui v s)) = env s
        \<and> env (snd (update_volume_from_key d s)) = env s
        \<and> env (snd (toggle_mute s)) = env s
        \<and> env (snd (check_external_change s)) = env s
        \<and> VOLUME_INTERFACE (snd (update_volume_from_gui v s)) = MockVolume
        \<and> VOLUME_INTERFACE (snd (update_volume_from_key d s)) = MockVolume
        \<and> VOLUME_INTERFACE (snd (toggle_mute s)) = MockVolume
        \<and> VOLUME_INTERFACE (snd (check_external_change s)) = MockVolume)"
proof -
  have start: "True \<in> set (take 3 (faults e)) \<longrightarrow>
      (\<exists>a. start_app e = Inr a \<and> VOLUME_INTERFACE a = MockVolume
           \<and> volume_scalar a = 0.5 \<and> is_muted a = False
           \<and> endpoint_level (env a) = endpoint_level e
           \<and> endpoint_mute (env a) = endpoint_mute e)"
    using start_app_with_mock [of e] endpoint_get_volume_interface [of e] by auto
  have ops: "VOLUME_INTERFACE s = MockVolume \<longrightarrow>
        env (snd (update_volume_from_gui v s)) = env s
        \<and> env (snd (update_volume_from_key d s)) = env s
        \<and> env (snd (toggle_mute s)) = env s
        \<and> env (snd (check_external_change s)) = env s
        \<and> VOLUME_INTERFACE (snd (update_volume_from_gui v s)) = MockVolume
        \<and> VOLUME_INTERFACE (snd (update_volume_from_key d s)) = MockVolume
        \<and> VOLUME_INTERFACE (snd (toggle_mute s)) = MockVolume
        \<and> VOLUME_INTERFACE (snd (check_external_change s)) = MockVolume"
    by (simp add: env_update_volume_from_gui env_update_volume_from_key env_toggle_mute
        env_check_external_change_mock snd_set_volume_scalar snd_set_mute_status
        VOLUME_INTERFACE_update_volume_from_gui VOLUME_INTERFACE_update_volume_from_key
        VOLUME_INTERFACE_toggle_mute VOLUME_INTERFACE_check_external_change)
  from start ops show ?thesis
    by (simp add: mock_backend_functions)
qed

theorem startup_failure_falls_back_to_mock_witness:
  "(\<exists>a. start_app (quiet_environment\<lparr>faults := [False, True]\<rparr>) = Inr a
        \<and> VOLUME_INTERFACE a = MockVolume \<and> volume_scalar a = 0.5 \<and> is_muted a = False
        \<and> endpoint_level (env a) = 0.5 \<and> endpoint_mute (env a) = 0)
   \<and> env (snd (update_volume_from_key 0.05 (example_app\<lparr>VOLUME_INTERFACE := MockVolume\<rparr>)))
       = quiet_environment
   \<and> env (snd (check_external_change (example_app\<lparr>VOLUME_INTERFACE := MockVolume\<rparr>)))
       = quiet_environment"
proof -
  have a: "True \<in> set (take 3 (faults (quiet_environment\<lparr>faults := [False, True]\<rparr>)))"
    by simp
  have b: "endpoint_level (quiet_environment\<lparr>faults := [False, True]\<rparr>) = 0.5"
    "endpoint_mute (quiet_environment\<lparr>faults := [False, True]\<rparr>) = 0"
    by (simp_all add: quiet_environment_def)
  have c: "VOLUME_INTERFACE (example_app\<lparr>VOLUME_INTERFACE := MockVolume\<rparr>) = MockVolume"
    "env (example_app\<lparr>VOLUME_INTERFACE := MockVolume\<rparr>) = quiet_environment"
    by (simp_all add: example_app_def)
  from startup_failure_falls_back_to_mock
         [of "quiet_environment\<lparr>faults := [False, True]\<rparr>" "0.3" True
             "example_app\<lparr>VOLUME_INTERFACE := MockVolume\<rparr>" "0.3" "0.05"] a b c
  show ?thesis by simp
qed

end
